theory Spec2Isabelle
  imports Complex_Main "HOL-Library.AList" "HOL-Library.List_Lexorder" "HOL-Library.Char_ord"
begin

section \<open>Values held by a dataframe cell\<close>

text \<open>
  The program (\<^verbatim>\<open>hello.py\<close>) reads a table of registered electric vehicles into a pandas
  dataframe, normalises it and renders eight charts. A cell of the table is a Python
  object: \<^verbatim>\<open>None\<close>, a string or a number. Strings are lists of code points below 256.

  A Python float is one of the two infinities, NaN, or a finite value, kept here as a
  rational. NaN is the value pandas treats as missing.
\<close>

datatype pyfloat = Fin rat | PInf | NInf | NaN

datatype cell = CNone | CStr string | CNum pyfloat

text \<open>\<^verbatim>\<open>pd.isna\<close> on a scalar: \<^verbatim>\<open>None\<close> and NaN are missing.\<close>

fun isna :: "cell \<Rightarrow> bool" where
  "isna CNone = True"
| "isna (CNum NaN) = True"
| "isna _ = False"

datatype error = AttributeError | ValueError | KeyError | TypeError

section \<open>String methods of Python used by the program\<close>

text \<open>\<^verbatim>\<open>str.isspace\<close> on one code point below 256: tab, LF, VT, FF, CR, the four
  separators FS, GS, RS and US, the space, NEL and the no-break space.\<close>

definition isspace :: "char \<Rightarrow> bool" where
  "isspace c = (of_char c \<in> set [9, 10, 11, 12, 13, 28, 29, 30, 31, 32, 133, 160 :: nat])"

text \<open>\<^verbatim>\<open>s.strip()\<close>\<close>

definition strip :: "string \<Rightarrow> string" where
  "strip s = rev (dropWhile isspace (rev (dropWhile isspace s)))"

text \<open>\<^verbatim>\<open>s.startswith(p)\<close> and \<^verbatim>\<open>s.endswith(p)\<close>\<close>

definition startswith :: "string \<Rightarrow> string \<Rightarrow> bool" where
  "startswith s p = (take (length p) s = p)"

definition endswith :: "string \<Rightarrow> string \<Rightarrow> bool" where
  "endswith s p = (length p \<le> length s \<and> drop (length s - length p) s = p)"

text \<open>\<^verbatim>\<open>s[7:-1]\<close>: the slice from index 7 up to, and without, the last character; empty
  when the string is too short.\<close>

definition slice_7_m1 :: "string \<Rightarrow> string" where
  "slice_7_m1 s = drop 7 (butlast s)"

text \<open>\<^verbatim>\<open>s.split()\<close> with no argument: the maximal runs of non-whitespace characters, in
  order. The first argument is the run being read.\<close>

fun split_from :: "string \<Rightarrow> string \<Rightarrow> string list" where
  "split_from cur [] = (if cur = [] then [] else [cur])"
| "split_from cur (c # cs) =
     (if isspace c then (if cur = [] then split_from [] cs else cur # split_from [] cs)
      else split_from (cur @ [c]) cs)"

definition split :: "string \<Rightarrow> string list" where
  "split s = split_from [] s"

section \<open>The builtin \<^verbatim>\<open>float\<close> on a string\<close>

text \<open>
  \<^verbatim>\<open>float(s)\<close> strips whitespace, reads an optional sign, and then either one of the words
  \<^verbatim>\<open>inf\<close>, \<^verbatim>\<open>infinity\<close>, \<^verbatim>\<open>nan\<close> in any letter case, or a decimal number: digits with an
  optional point and an optional exponent, where single underscores may separate digits.
  Any other string raises \<^verbatim>\<open>ValueError\<close>, which is \<open>None\<close> here.

  The whitespace that \<^verbatim>\<open>float\<close> strips is narrower than that of \<^verbatim>\<open>str.strip\<close>: tab, LF, VT,
  FF, CR and the space, and of the code points from 128 on NEL and the no-break space,
  which it first turns into spaces. The separators FS, GS, RS and US are not stripped, so
  a string that holds one is rejected.

  The value of a decimal number is the exact rational of the literal. Python rounds it to
  the nearest binary64 number, which gives an infinity for a literal beyond the largest
  float and zero for one close enough to zero; this rounding is left out. It never turns a
  number into NaN or NaN into a number, and it does not change which strings are accepted.
\<close>

definition float_space :: "char \<Rightarrow> bool" where
  "float_space c = (of_char c \<in> set [9, 10, 11, 12, 13, 32, 133, 160 :: nat])"

definition float_strip :: "string \<Rightarrow> string" where
  "float_strip s = rev (dropWhile float_space (rev (dropWhile float_space s)))"

definition isdigit :: "char \<Rightarrow> bool" where
  "isdigit c = (48 \<le> (of_char c :: nat) \<and> (of_char c :: nat) \<le> 57)"

definition digit_val :: "char \<Rightarrow> nat" where
  "digit_val c = of_char c - 48"

definition lower :: "char \<Rightarrow> char" where
  "lower c = (if 65 \<le> (of_char c :: nat) \<and> (of_char c :: nat) \<le> 90
              then char_of (of_char c + 32 :: nat) else c)"

text \<open>A digit part: digits, with single underscores between digits only.\<close>

fun digitpart :: "string \<Rightarrow> bool" where
  "digitpart [] = False"
| "digitpart [c] = isdigit c"
| "digitpart (c # d # cs) =
     (isdigit c \<and> (if d = CHR ''_'' then digitpart cs else digitpart (d # cs)))"

definition digits_val :: "string \<Rightarrow> nat" where
  "digits_val s = foldl (\<lambda>a c. 10 * a + digit_val c) 0 (filter isdigit s)"

definition take_sign :: "string \<Rightarrow> bool \<times> string" where
  "take_sign s = (case s of
       c # cs \<Rightarrow> if c = CHR ''-'' then (True, cs) else if c = CHR ''+'' then (False, cs)
                 else (False, s)
     | [] \<Rightarrow> (False, s))"

definition pow10 :: "int \<Rightarrow> rat" where
  "pow10 e = (if 0 \<le> e then 10 ^ nat e else 1 / 10 ^ nat (- e))"

text \<open>The exponent that follows a number: absent, or \<^verbatim>\<open>e\<close> or \<^verbatim>\<open>E\<close>, an optional sign and a
  digit part.\<close>

definition exponent :: "string \<Rightarrow> int option" where
  "exponent s = (case s of
       [] \<Rightarrow> Some 0
     | c # cs \<Rightarrow>
         if c = CHR ''e'' \<or> c = CHR ''E'' then
           (let (neg, ds) = take_sign cs in
            if digitpart ds
            then Some (if neg then - int (digits_val ds) else int (digits_val ds))
            else None)
         else None)"

definition floatnumber :: "string \<Rightarrow> rat option" where
  "floatnumber s =
     (let isnum = (\<lambda>c. isdigit c \<or> c = CHR ''_'');
          ip = takeWhile isnum s; r1 = dropWhile isnum s;
          dot = (r1 \<noteq> [] \<and> hd r1 = CHR ''.'');
          fp = (if dot then takeWhile isnum (tl r1) else []);
          r2 = (if dot then dropWhile isnum (tl r1) else r1);
          ok = (if dot then (if fp = [] then digitpart ip
                             else digitpart fp \<and> (ip = [] \<or> digitpart ip))
                else digitpart ip)
      in if ok then
           (case exponent r2 of
              None \<Rightarrow> None
            | Some e \<Rightarrow>
                Some ((of_nat (digits_val ip)
                       + of_nat (digits_val fp) / 10 ^ length (filter isdigit fp)) * pow10 e))
         else None)"

definition py_float :: "string \<Rightarrow> pyfloat option" where
  "py_float s =
     (let (neg, body) = take_sign (float_strip s); w = map lower body in
      if w = ''inf'' \<or> w = ''infinity'' then Some (if neg then NInf else PInf)
      else if w = ''nan'' then Some NaN
      else (case floatnumber body of
              None \<Rightarrow> None
            | Some q \<Rightarrow> Some (Fin (if neg then - q else q))))"

section \<open>The geometry decoder\<close>

text \<open>
  \<^verbatim>\<open>parse_point\<close> of the source. \<open>parse_point_try\<close> is the body of its \<^verbatim>\<open>try\<close> block, with
  the exceptions it can raise as values: \<^verbatim>\<open>val.strip()\<close> on a number raises
  \<^verbatim>\<open>AttributeError\<close>, \<^verbatim>\<open>float\<close> on a bad token raises \<^verbatim>\<open>ValueError\<close>. \<open>parse_point\<close> adds
  the handler \<^verbatim>\<open>except Exception\<close>, which returns the pair of NaNs.
\<close>

definition parse_point_try :: "cell \<Rightarrow> error + (pyfloat \<times> pyfloat)" where
  "parse_point_try val =
     (if isna val then Inr (NaN, NaN)
      else (case val of
          CStr s \<Rightarrow>
            (let v = strip s in
             if startswith v ''POINT ('' \<and> endswith v '')'' then
               (let coords = split (slice_7_m1 v) in
                if length coords = 2 then
                  (case py_float (coords ! 0) of
                     None \<Rightarrow> Inl ValueError
                   | Some x \<Rightarrow>
                       (case py_float (coords ! 1) of
                          None \<Rightarrow> Inl ValueError
                        | Some y \<Rightarrow> Inr (x, y)))
                else Inr (NaN, NaN))
             else Inr (NaN, NaN))
        | _ \<Rightarrow> Inl AttributeError))"

definition parse_point :: "cell \<Rightarrow> pyfloat \<times> pyfloat" where
  "parse_point val = (case parse_point_try val of Inl _ \<Rightarrow> (NaN, NaN) | Inr p \<Rightarrow> p)"

section \<open>Words for the statements about the geometry text\<close>

text \<open>A string of whitespace only, and a token: a non-empty string without whitespace.\<close>

definition all_space :: "string \<Rightarrow> bool" where
  "all_space w = list_all isspace w"

definition token :: "string \<Rightarrow> bool" where
  "token a = (a \<noteq> [] \<and> list_all (\<lambda>c. \<not> isspace c) a)"

section \<open>Dataframes\<close>

text \<open>
  A dataframe is the list of its columns in order, each a label with the cells of that
  column from the first row to the last. The frames of pandas that the program reads with
  \<^verbatim>\<open>df[label]\<close> as one column have distinct labels and columns of one length
  (\<open>wf_frame\<close>); the theorems about frames are stated for those. The row labels of a
  pandas frame play no part in the program and are left out, so a frame without columns
  has no rows here.
\<close>

type_synonym frame = "(string \<times> cell list) list"

definition columns :: "frame \<Rightarrow> string list" where
  "columns df = map fst df"

text \<open>\<^verbatim>\<open>label in df.columns\<close>\<close>

definition has_column :: "frame \<Rightarrow> string \<Rightarrow> bool" where
  "has_column df c = (c \<in> set (columns df))"

text \<open>\<^verbatim>\<open>df[label]\<close>: the column, or \<^verbatim>\<open>KeyError\<close> when the frame has no such label.\<close>

definition getitem :: "frame \<Rightarrow> string \<Rightarrow> error + cell list" where
  "getitem df c = (case map_of df c of None \<Rightarrow> Inl KeyError | Some vs \<Rightarrow> Inr vs)"

text \<open>\<^verbatim>\<open>df[label] = values\<close>: replaces the column of that label where it stands, or adds the
  column at the end.\<close>

definition setitem :: "string \<Rightarrow> cell list \<Rightarrow> frame \<Rightarrow> frame" where
  "setitem c vs df = AList.update c vs df"

text \<open>\<^verbatim>\<open>len(df)\<close> and \<^verbatim>\<open>df.empty\<close> (no column or no row).\<close>

definition nrows :: "frame \<Rightarrow> nat" where
  "nrows df = (case df of [] \<Rightarrow> 0 | (c, vs) # rest \<Rightarrow> length vs)"

definition frame_empty :: "frame \<Rightarrow> bool" where
  "frame_empty df = (df = [] \<or> nrows df = 0)"

definition wf_frame :: "frame \<Rightarrow> bool" where
  "wf_frame df = (distinct (columns df) \<and> list_all (\<lambda>(c, vs). length vs = nrows df) df)"

text \<open>\<^verbatim>\<open>df.head(n)\<close>: the first \<open>n\<close> rows.\<close>

definition head :: "nat \<Rightarrow> frame \<Rightarrow> frame" where
  "head n df = map (\<lambda>(c, vs). (c, take n vs)) df"

text \<open>\<^verbatim>\<open>df.dropna(subset=labels)\<close>: the rows in which no cell under the given labels is
  missing. \<open>notna_mask\<close> marks those rows; a label the frame lacks raises \<^verbatim>\<open>KeyError\<close>.\<close>

fun notna_mask :: "frame \<Rightarrow> string list \<Rightarrow> error + bool list" where
  "notna_mask df [] = Inr (replicate (nrows df) True)"
| "notna_mask df (c # cs) =
     (case getitem df c of
        Inl e \<Rightarrow> Inl e
      | Inr vs \<Rightarrow>
          (case notna_mask df cs of
             Inl e \<Rightarrow> Inl e
           | Inr m \<Rightarrow> Inr (map2 (\<lambda>v keep. \<not> isna v \<and> keep) vs m)))"

definition select_rows :: "bool list \<Rightarrow> frame \<Rightarrow> frame" where
  "select_rows m df = map (\<lambda>(c, vs). (c, map snd (filter fst (zip m vs)))) df"

definition dropna :: "string list \<Rightarrow> frame \<Rightarrow> error + frame" where
  "dropna labels df =
     (case notna_mask df labels of Inl e \<Rightarrow> Inl e | Inr m \<Rightarrow> Inr (select_rows m df))"

text \<open>The rows of two columns, as pairs, in which neither cell is missing.\<close>

definition complete_rows :: "cell list \<Rightarrow> cell list \<Rightarrow> (cell \<times> cell) list" where
  "complete_rows as bs = filter (\<lambda>(a, b). \<not> isna a \<and> \<not> isna b) (zip as bs)"

text \<open>
  \<^verbatim>\<open>df.sample(n=n, random_state=r)\<close> draws \<open>n\<close> rows without replacement. The random
  generator belongs to the library. A generator gives, for a number of rows and \<open>n\<close>, the
  positions of the rows it draws, in the order drawn. With \<^verbatim>\<open>random_state\<close> an integer,
  pandas draws from a new generator started from that seed: \<open>seeded\<close> is the library's map
  from seeds to those generators. With \<^verbatim>\<open>random_state=None\<close> it draws from the generator
  of the process, whose state differs from one run to the next: \<open>ambient\<close> is that
  generator as the run finds it.
\<close>

type_synonym generator = "nat \<Rightarrow> nat \<Rightarrow> nat list"

type_synonym sampler = "nat \<Rightarrow> generator"

definition sample :: "sampler \<Rightarrow> generator \<Rightarrow> nat \<Rightarrow> nat option \<Rightarrow> frame \<Rightarrow> frame" where
  "sample seeded ambient n random_state df =
     (let gen = (case random_state of None \<Rightarrow> ambient | Some seed \<Rightarrow> seeded seed);
          rows = gen (nrows df) n
      in map (\<lambda>(c, vs). (c, map (\<lambda>i. vs ! i) rows)) df)"

text \<open>
  \<^verbatim>\<open>series.value_counts()\<close>: the distinct values that are not missing, each with the number
  of rows that hold it, by descending count. Equal counts stay here in the order in which
  the values first occur. pandas sorts with a method that need not keep that order, so
  among equal counts its order may differ; nothing below relies on the order among equal
  counts.
\<close>

definition distinct_values :: "'a list \<Rightarrow> 'a list" where
  "distinct_values xs = rev (remdups (rev xs))"

definition sort_desc :: "('a \<times> nat) list \<Rightarrow> ('a \<times> nat) list" where
  "sort_desc ws = sort_key (\<lambda>w. - int (snd w)) ws"

definition value_counts :: "cell list \<Rightarrow> (cell \<times> nat) list" where
  "value_counts vs =
     (let xs = filter (\<lambda>v. \<not> isna v) vs
      in sort_desc (map (\<lambda>v. (v, count_list xs v)) (distinct_values xs)))"

text \<open>A count as a cell, and \<^verbatim>\<open>counts.reset_index()\<close> with the two columns named: the
  values under the given label, the counts under \<^verbatim>\<open>count\<close>.\<close>

definition count_cell :: "nat \<Rightarrow> cell" where
  "count_cell n = CNum (Fin (of_nat n))"

definition counts_frame :: "string \<Rightarrow> (cell \<times> nat) list \<Rightarrow> frame" where
  "counts_frame label ws = [(label, map fst ws), (''count'', map (\<lambda>w. count_cell (snd w)) ws)]"

text \<open>
  \<^verbatim>\<open>df.groupby([a, b]).size()\<close> on the rows given as pairs of the two cells: one group for
  each pair of values that occurs with neither missing, and the number of its rows.
  pandas lists the groups by key; here they stand in the order of first occurrence. The
  difference shows only in the order among groups of equal size once they are sorted by
  size, and nothing below relies on that order.
\<close>

definition groupby_size :: "(cell \<times> cell) list \<Rightarrow> ((cell \<times> cell) \<times> nat) list" where
  "groupby_size rows =
     (let xs = filter (\<lambda>(a, b). \<not> isna a \<and> \<not> isna b) rows
      in map (\<lambda>k. (k, count_list xs k)) (distinct_values xs))"

text \<open>
  \<^verbatim>\<open>counts.sort_values(label)\<close> on the values of a \<open>value_counts\<close>: numbers ascend, strings
  ascend by code points, NaN comes last, and a column that mixes both raises \<^verbatim>\<open>TypeError\<close>, since Python
  does not compare a string with a number.
\<close>

definition is_num :: "cell \<Rightarrow> bool" where
  "is_num c = (case c of CNum x \<Rightarrow> True | _ \<Rightarrow> False)"

definition is_str :: "cell \<Rightarrow> bool" where
  "is_str c = (case c of CStr s \<Rightarrow> True | _ \<Rightarrow> False)"

definition fin_val :: "cell \<Rightarrow> rat" where
  "fin_val c = (case c of CNum (Fin q) \<Rightarrow> q | _ \<Rightarrow> 0)"

definition str_val :: "cell \<Rightarrow> string" where
  "str_val c = (case c of CStr s \<Rightarrow> s | _ \<Rightarrow> [])"

definition is_fin :: "cell \<Rightarrow> bool" where
  "is_fin c = (case c of CNum (Fin q) \<Rightarrow> True | _ \<Rightarrow> False)"

definition sort_values :: "(cell \<times> nat) list \<Rightarrow> error + (cell \<times> nat) list" where
  "sort_values ws =
     (if list_all (\<lambda>w. is_num (fst w)) ws then
        Inr (filter (\<lambda>w. fst w = CNum NInf) ws
             @ sort_key (\<lambda>w. fin_val (fst w)) (filter (\<lambda>w. is_fin (fst w)) ws)
             @ filter (\<lambda>w. fst w = CNum PInf) ws
             @ filter (\<lambda>w. fst w = CNum NaN) ws)
      else if list_all (\<lambda>w. is_str (fst w)) ws then Inr (sort_key (\<lambda>w. str_val (fst w)) ws)
      else Inl TypeError)"

section \<open>The normaliser\<close>

text \<open>The fixed table from the column names of the source data to the canonical names.\<close>

definition column_map :: "(string \<times> string) list" where
  "column_map =
    [(''VIN (1-10)'', ''vin_1_10''),
     (''County'', ''county''),
     (''City'', ''city''),
     (''State'', ''state''),
     (''Postal Code'', ''zip_code''),
     (''Model Year'', ''model_year''),
     (''Make'', ''make''),
     (''Model'', ''model''),
     (''Electric Vehicle Type'', ''ev_type''),
     (''Clean Alternative Fuel Vehicle (CAFV) Eligibility'', ''cafv_type''),
     (''Electric Range'', ''electric_range''),
     (''Base MSRP'', ''base_msrp''),
     (''Legislative District'', ''legislative_district''),
     (''DOL Vehicle ID'', ''dol_vehicle_id''),
     (''Vehicle Location'', ''geocoded_column''),
     (''Electric Utility'', ''electric_utility''),
     (''2020 Census Tract'', ''_2020_census_tract'')]"

text \<open>\<^verbatim>\<open>df.rename(columns=m)\<close>: every label that is a key of \<open>m\<close> is replaced by its value.\<close>

definition rename :: "(string \<times> string) list \<Rightarrow> frame \<Rightarrow> frame" where
  "rename m df = map (\<lambda>(c, vs). (case map_of m c of None \<Rightarrow> c | Some c' \<Rightarrow> c', vs)) df"

text \<open>The first step of \<^verbatim>\<open>load_and_prepare_data\<close>: the renaming by the entries of
  \<open>column_map\<close> whose key is a column of the frame.\<close>

definition rename_columns :: "frame \<Rightarrow> frame" where
  "rename_columns df = rename (filter (\<lambda>(k, v). has_column df k) column_map) df"

text \<open>What the renaming does to one label of the frame it is applied to.\<close>

definition canonical :: "string \<Rightarrow> string" where
  "canonical c = (case map_of column_map c of None \<Rightarrow> c | Some c' \<Rightarrow> c')"

text \<open>
  \<^verbatim>\<open>pd.to_numeric(series, errors="coerce")\<close> on one cell. How pandas reads a string as a
  number is the library's matter: it is the parameter \<open>num\<close>, \<open>None\<close> for a string it
  rejects. With \<^verbatim>\<open>errors="coerce"\<close> a rejected string becomes NaN; so does \<^verbatim>\<open>None\<close>.
\<close>

fun to_numeric_coerce :: "(string \<Rightarrow> pyfloat option) \<Rightarrow> cell \<Rightarrow> cell" where
  "to_numeric_coerce num CNone = CNum NaN"
| "to_numeric_coerce num (CNum x) = CNum x"
| "to_numeric_coerce num (CStr s) = (case num s of None \<Rightarrow> CNum NaN | Some x \<Rightarrow> CNum x)"

text \<open>One round of the loop over the three numeric columns. Under the guard the column is
  there, so the branch \<open>None\<close> of the read is never taken.\<close>

definition coerce_column :: "(string \<Rightarrow> pyfloat option) \<Rightarrow> frame \<Rightarrow> string \<Rightarrow> frame" where
  "coerce_column num df col =
     (if has_column df col then
        (case map_of df col of
           None \<Rightarrow> df
         | Some vs \<Rightarrow> setitem col (map (to_numeric_coerce num) vs) df)
      else df)"

text \<open>The geometry step: both coordinate columns come from one pass of \<open>parse_point\<close> over
  the geometry column.\<close>

definition expand_geometry :: "frame \<Rightarrow> frame" where
  "expand_geometry df =
     (if has_column df ''geocoded_column'' then
        (case map_of df ''geocoded_column'' of
           None \<Rightarrow> df
         | Some vs \<Rightarrow>
             (let coords = map parse_point vs;
                  df1 = setitem ''longitude'' (map (\<lambda>x. CNum (fst x)) coords) df
              in setitem ''latitude'' (map (\<lambda>x. CNum (snd x)) coords) df1))
      else df)"

text \<open>\<^verbatim>\<open>load_and_prepare_data\<close>, from the frame that \<^verbatim>\<open>get_df\<close> returned.\<close>

definition load_and_prepare_data :: "(string \<Rightarrow> pyfloat option) \<Rightarrow> frame \<Rightarrow> frame" where
  "load_and_prepare_data num raw =
     expand_geometry
       (foldl (coerce_column num) (rename_columns raw)
          [''electric_range'', ''base_msrp'', ''model_year''])"

section \<open>The texts of the report\<close>

text \<open>\<^verbatim>\<open>abbr_explain\<close>: one line \<^verbatim>\<open>**key**: explanation\<close> for each given key that the
  table knows, joined by newlines.\<close>

definition abbr :: "(string \<times> string) list" where
  "abbr =
    [(''BEV'', ''Battery Electric Vehicle''),
     (''PHEV'', ''Plug-in Hybrid Electric Vehicle''),
     (''MSRP'', ''Manufacturer's Suggested Retail Price''),
     (''CAFV'', ''Clean Alternative Fuel Vehicle''),
     (''VIN'', ''Vehicle Identification Number''),
     (''DOL'', ''Department of Licensing''),
     (''EV'', ''Electric Vehicle''),
     (''WA'', ''Washington'')]"

fun join :: "string \<Rightarrow> string list \<Rightarrow> string" where
  "join sep [] = []"
| "join sep [x] = x"
| "join sep (x # y # ys) = x @ sep @ join sep (y # ys)"

definition abbr_explain :: "string list \<Rightarrow> string" where
  "abbr_explain keys =
     join ''\<newline>''
       (concat (map (\<lambda>k. case map_of abbr k of
                              None \<Rightarrow> []
                            | Some e \<Rightarrow> [''**'' @ k @ ''**: '' @ e]) keys))"

text \<open>For each chart builder: its heading, its caption, the text shown when no row is left,
  the text shown when a column is absent, and the title of its figure.\<close>

definition map_heading :: string where
  "map_heading = ''## Washington State EV Registration Map''"

definition map_caption :: string where
  "map_caption =
     ''**How to read:** This map shows the locations of registered EVs across Washington ''
     @ ''State. Each point represents a registered EV.\<newline>**Insight:** Clusters reveal ''
     @ ''urban hotspots and geographic trends in EV adoption.\<newline>''
     @ abbr_explain [''EV'', ''WA'']"

definition map_no_rows :: string where
  "map_no_rows = ''No valid geolocation data available for mapping EV registrations.''"

definition map_no_columns :: string where
  "map_no_columns = ''Geocoded location data not available for mapping.''"

definition map_title :: string where
  "map_title = ''EV Registrations Across Washington State''"

definition makes_heading :: string where
  "makes_heading = ''## Top Makes and Models''"

definition makes_caption :: string where
  "makes_caption =
     ''**How to read:** This bar chart shows the most common electric vehicle (EV) makes and ''
     @ ''models registered in Washington (WA).\<newline>**Insight:** It reveals which brands ''
     @ ''and models are most popular among EV owners.\<newline>''
     @ abbr_explain [''EV'', ''WA'']"

definition makes_no_rows :: string where
  "makes_no_rows = ''No data available for top makes and models.''"

definition makes_title :: string where
  "makes_title = ''Top 15 EV Makes and Models''"

definition share_heading :: string where
  "share_heading = ''## BEV vs PHEV Share''"

definition share_caption :: string where
  "share_caption =
     ''**How to read:** This pie chart shows the proportion of Battery Electric Vehicles ''
     @ ''(BEVs) vs Plug-in Hybrid Electric Vehicles (PHEVs) in the ''
     @ ''state.\<newline>**Insight:** It highlights the market split between fully electric ''
     @ ''and plug-in hybrid vehicles.\<newline>''
     @ abbr_explain [''BEV'', ''PHEV'', ''EV'']"

definition share_no_rows :: string where
  "share_no_rows = ''No data available for BEV vs PHEV share.''"

definition share_no_columns :: string where
  "share_no_columns = ''EV type data not available.''"

definition share_title :: string where
  "share_title = ''BEV vs PHEV Share''"

definition range_heading :: string where
  "range_heading = ''## Electric Range Distribution''"

definition range_caption :: string where
  "range_caption =
     ''**How to read:** This histogram shows how far EVs can travel on electric power ''
     @ ''alone.\<newline>**Insight:** It reveals the most common electric ranges and the ''
     @ ''spread of EV capabilities.\<newline>''
     @ abbr_explain [''EV'']"

definition range_no_rows :: string where
  "range_no_rows = ''No data available for electric range distribution.''"

definition range_no_columns :: string where
  "range_no_columns = ''Electric range data not available.''"

definition range_title :: string where
  "range_title = ''Distribution of Electric Range (miles)''"

definition cities_heading :: string where
  "cities_heading = ''## Top Cities for EVs''"

definition cities_caption :: string where
  "cities_caption =
     ''**How to read:** This bar chart shows which cities have the most registered ''
     @ ''EVs.\<newline>**Insight:** It highlights geographic hotspots for EV ''
     @ ''adoption.\<newline>''
     @ abbr_explain [''EV'']"

definition cities_no_rows :: string where
  "cities_no_rows = ''No data available for top cities.''"

definition cities_no_columns :: string where
  "cities_no_columns = ''City data not available.''"

definition cities_title :: string where
  "cities_title = ''Top 15 Cities for EVs''"

definition counties_heading :: string where
  "counties_heading = ''## Top Counties for EVs''"

definition counties_caption :: string where
  "counties_caption =
     ''**How to read:** This bar chart shows which counties have the most registered ''
     @ ''EVs.\<newline>**Insight:** It highlights geographic hotspots for EV ''
     @ ''adoption.\<newline>''
     @ abbr_explain [''EV'']"

definition counties_no_rows :: string where
  "counties_no_rows = ''No data available for top counties.''"

definition counties_no_columns :: string where
  "counties_no_columns = ''County data not available.''"

definition counties_title :: string where
  "counties_title = ''Top 15 Counties for EVs''"

definition msrp_heading :: string where
  "msrp_heading = ''## MSRP by EV Type''"

definition msrp_caption :: string where
  "msrp_caption =
     ''**How to read:** This boxplot shows the distribution of Manufacturer's Suggested ''
     @ ''Retail Price (MSRP) for BEVs and PHEVs.\<newline>**Insight:** It reveals price ''
     @ ''differences between fully electric and plug-in hybrid vehicles.\<newline>''
     @ abbr_explain [''MSRP'', ''BEV'', ''PHEV'']"

definition msrp_no_rows :: string where
  "msrp_no_rows = ''No MSRP data available for BEV or PHEV vehicles.''"

definition msrp_no_columns :: string where
  "msrp_no_columns = ''MSRP or EV type data not available.''"

definition msrp_title :: string where
  "msrp_title = ''MSRP by EV Type''"

definition yearly_heading :: string where
  "yearly_heading = ''## Yearly Trend of EV Registrations''"

definition yearly_caption :: string where
  "yearly_caption =
     ''**How to read:** This line chart shows how many EVs were registered each ''
     @ ''year.\<newline>**Insight:** It reveals growth trends in EV adoption over ''
     @ ''time.\<newline>''
     @ abbr_explain [''EV'']"

definition yearly_no_rows :: string where
  "yearly_no_rows = ''No registration data available by model year.''"

definition yearly_no_columns :: string where
  "yearly_no_columns = ''Model year data not available.''"

definition yearly_title :: string where
  "yearly_title = ''EV Registrations by Model Year''"

section \<open>The chart builders\<close>

text \<open>
  A builder sends texts and one figure to the rendering layer. A figure is recorded by the
  plotly express function that makes it, the frame handed to that function and its title;
  the other keyword arguments choose axes, labels and colours and are left out. Of the
  checks plotly makes, the one that can fail is modelled: a column named in the arguments
  must exist. Only the map names columns that the builder has not made sure of. What the
  builder has sent is a list of events, oldest first. A builder that returns is \<open>Done\<close>
  with its events; one that raises is \<open>Raised\<close> with the exception and the events sent
  before it.
\<close>

datatype figure = Figure (fig_kind: string) (fig_data: frame) (fig_title: string)

datatype event = Text string | Plotly figure

datatype outcome = Done "event list" | Raised error "event list"

text \<open>
  \<^verbatim>\<open>plot_ev_map\<close>. \<^verbatim>\<open>px.scatter_mapbox\<close> is called with \<^verbatim>\<open>hover_data\<close> naming four columns
  and raises \<^verbatim>\<open>ValueError\<close> when the frame it is given lacks one of them; heading and
  caption have been sent by then. The sample is drawn with the fixed seed 42.
\<close>

definition hover_data :: "string list" where
  "hover_data = [''make'', ''model'', ''model_year'', ''county'']"

definition scatter_mapbox :: "frame \<Rightarrow> string \<Rightarrow> error + figure" where
  "scatter_mapbox df title =
     (if list_all (has_column df) hover_data then Inr (Figure ''scatter_mapbox'' df title)
      else Inl ValueError)"

definition plot_ev_map :: "sampler \<Rightarrow> generator \<Rightarrow> frame \<Rightarrow> outcome" where
  "plot_ev_map seeded ambient df =
     (if has_column df ''longitude'' \<and> has_column df ''latitude'' then
        (case dropna [''longitude'', ''latitude''] df of
           Inl e \<Rightarrow> Raised e []
         | Inr map_df \<Rightarrow>
             if \<not> frame_empty map_df then
               (case scatter_mapbox
                       (sample seeded ambient (min 5000 (nrows map_df)) (Some 42) map_df)
                       map_title of
                  Inl e \<Rightarrow> Raised e [Text map_heading, Text map_caption]
                | Inr fig_map \<Rightarrow> Done [Text map_heading, Text map_caption, Plotly fig_map])
             else Done [Text map_no_rows])
      else Done [Text map_no_columns])"

text \<open>
  \<^verbatim>\<open>plot_top_makes_models\<close>. It groups without looking for its columns first, so the
  read of an absent column raises. \<open>str_add\<close> is \<^verbatim>\<open>+\<close> on two cells of a string column,
  which raises \<^verbatim>\<open>TypeError\<close> unless both are strings.
\<close>

fun str_add :: "cell \<Rightarrow> cell \<Rightarrow> error + cell" where
  "str_add (CStr a) (CStr b) = Inr (CStr (a @ b))"
| "str_add _ _ = Inl TypeError"

fun make_model :: "(cell \<times> cell) list \<Rightarrow> error + cell list" where
  "make_model [] = Inr []"
| "make_model ((mk, md) # rest) =
     (case str_add mk (CStr '' '') of
        Inl e \<Rightarrow> Inl e
      | Inr m \<Rightarrow>
          (case str_add m md of
             Inl e \<Rightarrow> Inl e
           | Inr mm \<Rightarrow> (case make_model rest of Inl e \<Rightarrow> Inl e | Inr mms \<Rightarrow> Inr (mm # mms))))"

definition top_models_of :: "cell list \<Rightarrow> cell list \<Rightarrow> ((cell \<times> cell) \<times> nat) list" where
  "top_models_of makes models = take 15 (sort_desc (groupby_size (zip makes models)))"

definition plot_top_makes_models :: "frame \<Rightarrow> outcome" where
  "plot_top_makes_models df =
     (case getitem df ''make'' of
        Inl e \<Rightarrow> Raised e []
      | Inr makes \<Rightarrow>
          (case getitem df ''model'' of
             Inl e \<Rightarrow> Raised e []
           | Inr models \<Rightarrow>
               (let top_models = top_models_of makes models in
                if top_models \<noteq> [] then
                  (case make_model (map fst top_models) of
                     Inl e \<Rightarrow> Raised e [Text makes_heading, Text makes_caption]
                   | Inr mm \<Rightarrow>
                       Done [Text makes_heading, Text makes_caption,
                             Plotly (Figure ''bar''
                               [(''make'', map (\<lambda>w. fst (fst w)) top_models),
                                (''model'', map (\<lambda>w. snd (fst w)) top_models),
                                (''count'', map (\<lambda>w. count_cell (snd w)) top_models),
                                (''make_model'', mm)]
                               makes_title)])
                else Done [Text makes_no_rows])))"

text \<open>\<^verbatim>\<open>plot_bev_phev_share\<close>\<close>

definition plot_bev_phev_share :: "frame \<Rightarrow> outcome" where
  "plot_bev_phev_share df =
     (if has_column df ''ev_type'' then
        (case getitem df ''ev_type'' of
           Inl e \<Rightarrow> Raised e []
         | Inr vs \<Rightarrow>
             (let ev_type_counts = value_counts vs in
              if ev_type_counts \<noteq> [] then
                Done [Text share_heading, Text share_caption,
                      Plotly (Figure ''pie'' (counts_frame ''ev_type'' ev_type_counts) share_title)]
              else Done [Text share_no_rows]))
      else Done [Text share_no_columns])"

text \<open>\<^verbatim>\<open>plot_electric_range_distribution\<close>: heading and caption go out before the rows are
  looked at.\<close>

definition plot_electric_range_distribution :: "frame \<Rightarrow> outcome" where
  "plot_electric_range_distribution df =
     (if has_column df ''electric_range'' then
        (case dropna [''electric_range''] df of
           Inl e \<Rightarrow> Raised e [Text range_heading, Text range_caption]
         | Inr range_df \<Rightarrow>
             if \<not> frame_empty range_df then
               Done [Text range_heading, Text range_caption,
                     Plotly (Figure ''histogram'' range_df range_title)]
             else Done [Text range_heading, Text range_caption, Text range_no_rows])
      else Done [Text range_no_columns])"

text \<open>\<^verbatim>\<open>plot_top_cities\<close> and \<^verbatim>\<open>plot_top_counties\<close>: the figure gets the first 15 rows of the
  counts.\<close>

definition plot_top_cities :: "frame \<Rightarrow> outcome" where
  "plot_top_cities df =
     (if has_column df ''city'' then
        (case getitem df ''city'' of
           Inl e \<Rightarrow> Raised e []
         | Inr vs \<Rightarrow>
             (let top_cities = value_counts vs in
              if top_cities \<noteq> [] then
                Done [Text cities_heading, Text cities_caption,
                      Plotly (Figure ''bar'' (head 15 (counts_frame ''city'' top_cities))
                                cities_title)]
              else Done [Text cities_no_rows]))
      else Done [Text cities_no_columns])"

definition plot_top_counties :: "frame \<Rightarrow> outcome" where
  "plot_top_counties df =
     (if has_column df ''county'' then
        (case getitem df ''county'' of
           Inl e \<Rightarrow> Raised e []
         | Inr vs \<Rightarrow>
             (let top_counties = value_counts vs in
              if top_counties \<noteq> [] then
                Done [Text counties_heading, Text counties_caption,
                      Plotly (Figure ''bar'' (head 15 (counts_frame ''county'' top_counties))
                                counties_title)]
              else Done [Text counties_no_rows]))
      else Done [Text counties_no_columns])"

text \<open>\<^verbatim>\<open>plot_msrp_by_ev_type\<close>\<close>

definition plot_msrp_by_ev_type :: "frame \<Rightarrow> outcome" where
  "plot_msrp_by_ev_type df =
     (if has_column df ''base_msrp'' \<and> has_column df ''ev_type'' then
        (case dropna [''base_msrp'', ''ev_type''] df of
           Inl e \<Rightarrow> Raised e [Text msrp_heading, Text msrp_caption]
         | Inr msrp_df \<Rightarrow>
             if \<not> frame_empty msrp_df then
               Done [Text msrp_heading, Text msrp_caption,
                     Plotly (Figure ''box'' msrp_df msrp_title)]
             else Done [Text msrp_heading, Text msrp_caption, Text msrp_no_rows])
      else Done [Text msrp_no_columns])"

text \<open>\<^verbatim>\<open>plot_yearly_trend\<close>\<close>

definition plot_yearly_trend :: "frame \<Rightarrow> outcome" where
  "plot_yearly_trend df =
     (if has_column df ''model_year'' then
        (case getitem df ''model_year'' of
           Inl e \<Rightarrow> Raised e [Text yearly_heading, Text yearly_caption]
         | Inr vs \<Rightarrow>
             (case sort_values (value_counts vs) of
                Inl e \<Rightarrow> Raised e [Text yearly_heading, Text yearly_caption]
              | Inr year_trend \<Rightarrow>
                  if year_trend \<noteq> [] then
                    Done [Text yearly_heading, Text yearly_caption,
                          Plotly (Figure ''line'' (counts_frame ''model_year'' year_trend)
                                    yearly_title)]
                  else Done [Text yearly_heading, Text yearly_caption, Text yearly_no_rows]))
      else Done [Text yearly_no_columns])"

section \<open>Sample frames\<close>

text \<open>Frames on which the theorems below are applied: one whose every working set is
  empty, one with thirty distinct cities, one with missing cells among the counted columns,
  one with 5001 rows that carry both coordinates and the columns the map shows on
  hovering, and one with the coordinates only.\<close>

definition blank_frame :: frame where
  "blank_frame =
     [(''longitude'', [CNum NaN]), (''latitude'', [CNum (Fin 1)]),
      (''make'', [CNone]), (''model'', [CStr ''Leaf'']),
      (''ev_type'', [CNone]), (''city'', [CNone]), (''county'', [CNone]),
      (''electric_range'', [CNum NaN]), (''base_msrp'', [CNum NaN]), (''model_year'', [CNone])]"

definition thirty_cities :: "cell list" where
  "thirty_cities =
     [CStr ''Seattle'', CStr ''Bellevue'', CStr ''Redmond'', CStr ''Kirkland'',
      CStr ''Renton'', CStr ''Kent'', CStr ''Tacoma'', CStr ''Olympia'', CStr ''Spokane'',
      CStr ''Everett'', CStr ''Vancouver'', CStr ''Bothell'', CStr ''Sammamish'',
      CStr ''Issaquah'', CStr ''Auburn'', CStr ''Lynnwood'', CStr ''Shoreline'',
      CStr ''Edmonds'', CStr ''Burien'', CStr ''Puyallup'', CStr ''Lacey'',
      CStr ''Bremerton'', CStr ''Yakima'', CStr ''Pasco'', CStr ''Richland'',
      CStr ''Kennewick'', CStr ''Bellingham'', CStr ''Marysville'', CStr ''Lakewood'',
      CStr ''Snohomish'']"

definition gaps_frame :: frame where
  "gaps_frame =
     [(''ev_type'', [CStr ''BEV'', CNone, CStr ''PHEV'', CStr ''BEV'']),
      (''city'', [CStr ''Kent'', CStr ''Kent'', CNone, CStr ''Seattle'']),
      (''county'', [CNone, CStr ''King'', CStr ''King'', CNum NaN]),
      (''model_year'', [CNum (Fin 2021), CNum NaN, CNum (Fin 2019), CNum (Fin 2021)])]"



text \<open>A sampler that draws the first \<open>n\<close> positions whatever the seed, and two generators
  that draw differently.\<close>

definition first_rows :: sampler where
  "first_rows seed len n = [0..<n]"

definition ascending :: generator where
  "ascending len n = [0..<n]"

definition descending :: generator where
  "descending len n = rev [len - n..<len]"

section \<open>Words for the statements about counts\<close>

text \<open>A list of values with counts is counted from a column when its values are distinct
  and not missing and each count is the number of cells of the column that hold the value.\<close>

definition counted_from :: "cell list \<Rightarrow> (cell \<times> nat) list \<Rightarrow> bool" where
  "counted_from vs ws =
     (distinct (map fst ws)
      \<and> list_all (\<lambda>w. \<not> isna (fst w) \<and> snd w = count_list vs (fst w)) ws)"


section \<open>Properties of the geometry decoder\<close>

text \<open>The unfolding that evaluates the decoder on a concrete string.\<close>

lemmas pp_eval = parse_point_def parse_point_try_def strip_def isspace_def startswith_def
  endswith_def slice_7_m1_def split_def py_float_def float_strip_def float_space_def
  take_sign_def lower_def floatnumber_def isdigit_def exponent_def digits_val_def
  digit_val_def pow10_def






subsection \<open>The strings the decoder accepts\<close>

lemma split_from_nospace:
  "list_all (\<lambda>c. \<not> isspace c) a \<Longrightarrow> split_from cur (a @ rest) = split_from (cur @ a) rest"
  by (induction a arbitrary: cur) auto

lemma split_from_space_empty:
  "all_space w \<Longrightarrow> split_from [] (w @ rest) = split_from [] rest"
  by (induction w) (auto simp: all_space_def)

lemma split_from_space_cur:
  "all_space w \<Longrightarrow> w \<noteq> [] \<Longrightarrow> cur \<noteq> [] \<Longrightarrow> split_from cur (w @ rest) = cur # split_from [] rest"
  by (cases w) (auto simp: split_from_space_empty all_space_def)

lemma split_two:
  assumes "all_space m1" "token a" "all_space m2" "m2 \<noteq> []" "token b" "all_space m3"
  shows "split (m1 @ a @ m2 @ b @ m3) = [a, b]"
proof -
  have "split_from [] (m3 @ []) = []" using assms(6) by (subst split_from_space_empty) auto
  then have m3: "split_from [] m3 = []" by simp
  have b: "split_from [] (b @ m3) = [b]"
  proof (cases "m3 = []")
    case True
    then show ?thesis using assms(5) split_from_nospace [of b "[]" "[]"] by (simp add: token_def)
  next
    case False
    then show ?thesis using assms(5,6) m3
      by (simp add: split_from_nospace token_def split_from_space_cur [of m3 b "[]", simplified])
  qed
  have "split_from [] (a @ m2 @ b @ m3) = split_from a (m2 @ b @ m3)"
    using assms(2) by (simp add: split_from_nospace token_def)
  also have "\<dots> = a # split_from [] (b @ m3)"
    using assms(2,3,4) by (simp add: split_from_space_cur token_def)
  finally show ?thesis using assms(1) b by (simp add: split_def split_from_space_empty)
qed

lemma strip_core:
  assumes "all_space l" "all_space r" "core \<noteq> []" "\<not> isspace (hd core)" "\<not> isspace (last core)"
  shows "strip (l @ core @ r) = core"
proof -
  have 1: "dropWhile isspace (l @ core @ r) = core @ r"
    using assms(1,3,4) by (cases core) (auto simp: all_space_def list_all_iff dropWhile_append)
  have 2: "dropWhile isspace (rev r @ rev core) = rev core"
    using assms(2,3,5) 
    by (cases core rule: rev_cases) (auto simp: all_space_def list_all_iff dropWhile_append)
  show ?thesis by (simp add: strip_def 1 2)
qed

lemma strip_decomp: "\<exists>l r. s = l @ strip s @ r \<and> all_space l \<and> all_space r"
proof -
  let ?t = "dropWhile isspace s"
  have 1: "s = takeWhile isspace s @ ?t" by simp
  have "rev (takeWhile isspace (rev ?t) @ dropWhile isspace (rev ?t)) = rev (rev ?t)"
    by (simp only: takeWhile_dropWhile_id)
  then have 2: "?t = strip s @ rev (takeWhile isspace (rev ?t))"
    by (simp only: rev_append rev_rev_ident strip_def)
  have "all_space (takeWhile isspace s)" "all_space (rev (takeWhile isspace (rev ?t)))"
    by (auto simp: all_space_def list_all_iff dest: set_takeWhileD)
  with 1 2 show ?thesis by metis
qed

lemma frame_decomp:
  assumes "startswith v ''POINT (''" "endswith v '')''"
  shows "v = ''POINT ('' @ slice_7_m1 v @ '')''"
proof -
  have l7: "length ''POINT ('' = 7" by simp
  from assms(1) have t: "take 7 v = ''POINT (''" unfolding startswith_def l7 .
  have "length (take 7 v) = 7" unfolding t by simp
  then have len7: "7 \<le> length v" by simp
  from assms(2) have d: "1 \<le> length v" "drop (length v - 1) v = '')''" by (simp_all add: endswith_def)
  then have v: "v \<noteq> []" by auto
  have lst: "last v = CHR '')''" using d v
    by (metis append_butlast_last_id append_eq_conv_conj length_butlast last_snoc)
  have "length v \<noteq> 7"
  proof
    assume "length v = 7"
    then have "v = ''POINT (''" using t by simp
    with lst show False by simp
  qed
  with len7 have len8: "8 \<le> length v" by simp
  have a: "v = butlast v @ [last v]" using v by simp
  have b: "butlast v = take 7 (butlast v) @ drop 7 (butlast v)" by simp
  have c: "take 7 (butlast v) = take 7 v" using len8 by (simp add: take_butlast)
  have "v = (take 7 v @ drop 7 (butlast v)) @ [last v]"
    using a b c by metis
  then show ?thesis unfolding t lst slice_7_m1_def by simp
qed


lemma split_from_Nil: "split_from cur t = [] \<Longrightarrow> cur = [] \<and> all_space t"
  by (induction t arbitrary: cur) (auto simp: all_space_def split: if_splits)

lemma split_from_Cons:
  "split_from cur t = x # xs \<Longrightarrow>
   \<exists>w a rest. t = w @ a @ rest \<and> all_space w \<and> (cur \<noteq> [] \<longrightarrow> w = [])
      \<and> list_all (\<lambda>c. \<not> isspace c) a \<and> x = cur @ a \<and> x \<noteq> []
      \<and> (rest = [] \<and> xs = [] \<or> (\<exists>c r. rest = c # r \<and> isspace c \<and> xs = split_from [] r))"
proof (induction t arbitrary: cur)
  case Nil
  then show ?case by (auto simp: all_space_def split: if_splits)
next
  case (Cons c cs)
  show ?case
  proof (cases "isspace c")
    case True
    show ?thesis
    proof (cases "cur = []")
      case cur: True
      with True Cons.prems have "split_from [] cs = x # xs" by simp
      from Cons.IH [OF this] obtain w a rest where
        h: "cs = w @ a @ rest" "all_space w" "list_all (\<lambda>c. \<not> isspace c) a" "x = [] @ a" "x \<noteq> []"
           "rest = [] \<and> xs = [] \<or> (\<exists>c r. rest = c # r \<and> isspace c \<and> xs = split_from [] r)"
        by blast
      have "c # cs = (c # w) @ a @ rest" "all_space (c # w)"
        using h True by (simp_all add: all_space_def)
      with h cur show ?thesis by blast
    next
      case False
      with True Cons.prems have "x = cur" "xs = split_from [] cs" by simp_all
      with False True have "c # cs = [] @ [] @ (c # cs) \<and> all_space [] \<and> (cur \<noteq> [] \<longrightarrow> ([]::string) = [])
        \<and> list_all (\<lambda>c. \<not> isspace c) [] \<and> x = cur @ [] \<and> x \<noteq> []
        \<and> (\<exists>c' r. c # cs = c' # r \<and> isspace c' \<and> xs = split_from [] r)"
        by (simp add: all_space_def)
      then show ?thesis by blast
    qed
  next
    case False
    with Cons.prems have "split_from (cur @ [c]) cs = x # xs" by simp
    from Cons.IH [OF this] obtain a rest where
      h: "cs = a @ rest" "list_all (\<lambda>c. \<not> isspace c) a" "x = (cur @ [c]) @ a"
         "rest = [] \<and> xs = [] \<or> (\<exists>c r. rest = c # r \<and> isspace c \<and> xs = split_from [] r)"
      by auto
    have "c # cs = [] @ (c # a) @ rest" "list_all (\<lambda>c. \<not> isspace c) (c # a)" "x = cur @ (c # a)" "x \<noteq> []"
      using h False by simp_all
    with h(4) have "c # cs = [] @ (c # a) @ rest \<and> all_space [] \<and> (cur \<noteq> [] \<longrightarrow> ([]::string) = [])
        \<and> list_all (\<lambda>c. \<not> isspace c) (c # a) \<and> x = cur @ (c # a) \<and> x \<noteq> []
        \<and> (rest = [] \<and> xs = [] \<or> (\<exists>c r. rest = c # r \<and> isspace c \<and> xs = split_from [] r))"
      by (simp add: all_space_def)
    then show ?thesis by blast
  qed
qed

lemma split_two_decomp:
  assumes "split t = [a, b]"
  shows "\<exists>m1 m2 m3. t = m1 @ a @ m2 @ b @ m3 \<and> all_space m1 \<and> all_space m2 \<and> m2 \<noteq> []
           \<and> all_space m3 \<and> token a \<and> token b"
proof -
  from assms have "split_from [] t = a # [b]" by (simp add: split_def)
  from split_from_Cons [OF this] obtain w c r where
    1: "t = w @ a @ c # r" "all_space w" "token a" "isspace c" "split_from [] r = [b]"
    by (auto simp: token_def)
  from split_from_Cons [OF 1(5)] obtain w' rest where
    2: "r = w' @ b @ rest" "all_space w'" "token b"
       "rest = [] \<or> (\<exists>c' r'. rest = c' # r' \<and> isspace c' \<and> [] = split_from [] r')"
    by (auto simp: token_def)
  have 3: "all_space rest"
  proof (cases rest)
    case Nil
    then show ?thesis by (simp add: all_space_def)
  next
    case (Cons c' r')
    with 2(4) have "isspace c'" "split_from [] r' = []" by simp_all
    with split_from_Nil [of "[]" r'] Cons show ?thesis by (simp add: all_space_def)
  qed
  have "t = w @ a @ (c # w') @ b @ rest" "all_space (c # w')" "c # w' \<noteq> []"
    using 1 2 by (simp_all add: all_space_def)
  with 1(2,3) 2(3) 3 show ?thesis by blast
qed

lemma point_frame:
  "startswith (''POINT ('' @ mid @ '')'') ''POINT (''"
  "endswith (''POINT ('' @ mid @ '')'') '')''"
  "slice_7_m1 (''POINT ('' @ mid @ '')'') = mid"
proof -
  have "butlast (''POINT ('' @ mid @ '')'') = ''POINT ('' @ mid"
    by (simp add: butlast_append)
  then show "slice_7_m1 (''POINT ('' @ mid @ '')'') = mid"
    by (simp add: slice_7_m1_def)
qed (simp_all add: startswith_def endswith_def)

lemma parse_point_core:
  assumes "strip s = ''POINT ('' @ mid @ '')''" "split mid = [a, b]"
    "py_float a = Some x" "py_float b = Some y"
  shows "parse_point (CStr s) = (x, y)"
proof -
  note f = point_frame [of mid, folded assms(1)]
  show ?thesis
    by (simp add: parse_point_def parse_point_try_def f assms(2,3,4))
qed

lemma parse_point_lenient:
  assumes "all_space l" "all_space m1" "token a" "all_space m2" "m2 \<noteq> []" "token b"
    "all_space m3" "all_space r" "py_float a = Some x" "py_float b = Some y"
  shows "parse_point (CStr (l @ ''POINT ('' @ m1 @ a @ m2 @ b @ m3 @ '')'' @ r)) = (x, y)"
proof -
  let ?mid = "m1 @ a @ m2 @ b @ m3"
  let ?core = "''POINT ('' @ ?mid @ '')''"
  have "strip (l @ ?core @ r) = ?core"
    using assms(1,8) by (intro strip_core) (simp_all add: isspace_def)
  moreover have "l @ ''POINT ('' @ m1 @ a @ m2 @ b @ m3 @ '')'' @ r = l @ ?core @ r" by simp
  ultimately have s: "strip (l @ ''POINT ('' @ m1 @ a @ m2 @ b @ m3 @ '')'' @ r) = ?core"
    by (simp only:)
  have t: "split ?mid = [a, b]" using assms by (intro split_two)
  show ?thesis using s t assms(9,10) by (rule parse_point_core)
qed


text \<open>
  Claim C3, amended. The decoder accepts exactly the strings made of optional whitespace,
  the tag \<^verbatim>\<open>POINT (\<close>, optional whitespace, a token, whitespace, a token, optional
  whitespace, \<^verbatim>\<open>)\<close> and optional whitespace, where \<^verbatim>\<open>float\<close> accepts both tokens; it
  returns the two values of \<^verbatim>\<open>float\<close>. The format with single spaces,
  \<^verbatim>\<open>POINT (<float> <float>)\<close>, is the special case in the middle. Every cell for which
  the result is not (NaN, NaN) is a string of that form.
\<close>

theorem parse_point_accepted_format:
  "(all_space l \<and> all_space m1 \<and> token a \<and> all_space m2 \<and> m2 \<noteq> [] \<and> token b
      \<and> all_space m3 \<and> all_space r \<and> py_float a = Some x \<and> py_float b = Some y
    \<longrightarrow> parse_point (CStr (l @ ''POINT ('' @ m1 @ a @ m2 @ b @ m3 @ '')'' @ r)) = (x, y))
   \<and> (token a \<and> token b \<and> py_float a = Some x \<and> py_float b = Some y
    \<longrightarrow> parse_point (CStr (''POINT ('' @ a @ '' '' @ b @ '')'')) = (x, y))
   \<and> (parse_point v \<noteq> (NaN, NaN)
    \<longrightarrow> (\<exists>l m1 a m2 b m3 r x y.
          v = CStr (l @ ''POINT ('' @ m1 @ a @ m2 @ b @ m3 @ '')'' @ r)
          \<and> all_space l \<and> all_space m1 \<and> token a \<and> all_space m2 \<and> m2 \<noteq> [] \<and> token b
          \<and> all_space m3 \<and> all_space r \<and> py_float a = Some x \<and> py_float b = Some y
          \<and> parse_point v = (x, y)))"
proof (intro conjI impI)
  assume "all_space l \<and> all_space m1 \<and> token a \<and> all_space m2 \<and> m2 \<noteq> [] \<and> token b
      \<and> all_space m3 \<and> all_space r \<and> py_float a = Some x \<and> py_float b = Some y"
  then show "parse_point (CStr (l @ ''POINT ('' @ m1 @ a @ m2 @ b @ m3 @ '')'' @ r)) = (x, y)"
    using parse_point_lenient by blast
next
  assume h: "token a \<and> token b \<and> py_float a = Some x \<and> py_float b = Some y"
  have sp: "all_space []" "all_space '' ''" by (simp_all add: all_space_def isspace_def)
  from h sp parse_point_lenient [of "[]" "[]" a "'' ''" b "[]" "[]" x y]
  show "parse_point (CStr (''POINT ('' @ a @ '' '' @ b @ '')'')) = (x, y)" by simp
next
  assume ne: "parse_point v \<noteq> (NaN, NaN)"
  then obtain s where v: "v = CStr s"
    by (cases v) (auto simp: parse_point_def parse_point_try_def split: if_splits)
  let ?v = "strip s"
  let ?ts = "split (slice_7_m1 ?v)"
  from ne v have fr: "startswith ?v ''POINT (''" "endswith ?v '')''" and len: "length ?ts = 2"
    by (auto simp: parse_point_def parse_point_try_def Let_def split: if_splits)
  from len obtain a b where ab: "?ts = [a, b]"
    by (cases ?ts; cases "tl ?ts") auto
  from ne v fr ab obtain x y where xy: "py_float a = Some x" "py_float b = Some y"
    by (auto simp: parse_point_def parse_point_try_def Let_def split: option.splits)
  with v fr ab have res: "parse_point v = (x, y)"
    by (simp add: parse_point_def parse_point_try_def Let_def)
  from split_two_decomp [OF ab] obtain m1 m2 m3 where
    m: "slice_7_m1 ?v = m1 @ a @ m2 @ b @ m3" "all_space m1" "all_space m2" "m2 \<noteq> []"
       "all_space m3" "token a" "token b"
    by blast
  from strip_decomp [of s] obtain l r where lr: "s = l @ ?v @ r" "all_space l" "all_space r"
    by blast
  have "?v = ''POINT ('' @ (m1 @ a @ m2 @ b @ m3) @ '')''"
    using frame_decomp [OF fr] m(1) by simp
  with lr(1) have "s = l @ (''POINT ('' @ (m1 @ a @ m2 @ b @ m3) @ '')'') @ r" by simp
  then have "v = CStr (l @ ''POINT ('' @ m1 @ a @ m2 @ b @ m3 @ '')'' @ r)"
    using v by simp
  with m lr xy res
  show "\<exists>l m1 a m2 b m3 r x y.
          v = CStr (l @ ''POINT ('' @ m1 @ a @ m2 @ b @ m3 @ '')'' @ r)
          \<and> all_space l \<and> all_space m1 \<and> token a \<and> all_space m2 \<and> m2 \<noteq> [] \<and> token b
          \<and> all_space m3 \<and> all_space r \<and> py_float a = Some x \<and> py_float b = Some y
          \<and> parse_point v = (x, y)"
    by blast
qed

theorem parse_point_accepted_format_witness:
  "parse_point (CStr (''  '' @ ''POINT ('' @ '' '' @ ''-122.33'' @ ''   '' @ ''47.61'' @ '' '' @ '')'' @ '' ''))
     = (Fin (- (12233 / 100)), Fin (4761 / 100))
   \<and> parse_point (CStr (''POINT ('' @ ''-122.33'' @ '' '' @ ''47.61'' @ '')''))
     = (Fin (- (12233 / 100)), Fin (4761 / 100))
   \<and> parse_point (CStr ''POINT (-122.33 47.61)'') \<noteq> (NaN, NaN)
   \<and> (\<exists>l m1 a m2 b m3 r x y.
          CStr ''POINT (-122.33 47.61)'' = CStr (l @ ''POINT ('' @ m1 @ a @ m2 @ b @ m3 @ '')'' @ r)
          \<and> all_space l \<and> all_space m1 \<and> token a \<and> all_space m2 \<and> m2 \<noteq> [] \<and> token b
          \<and> all_space m3 \<and> all_space r \<and> py_float a = Some x \<and> py_float b = Some y
          \<and> parse_point (CStr ''POINT (-122.33 47.61)'') = (x, y))"
proof -
  have sp: "all_space ''  ''" "all_space '' ''" "all_space ''   ''" "all_space []" "''   '' \<noteq> []" "'' '' \<noteq> []"
    by (simp_all add: all_space_def isspace_def)
  have tk: "token ''-122.33''" "token ''47.61''"
    by (simp_all add: token_def isspace_def)
  have fl: "py_float ''-122.33'' = Some (Fin (- (12233 / 100)))" "py_float ''47.61'' = Some (Fin (4761 / 100))"
    by (simp_all add: pp_eval)
  have ne: "parse_point (CStr ''POINT (-122.33 47.61)'') \<noteq> (NaN, NaN)"
    by (simp add: pp_eval)
  note t = parse_point_accepted_format
  from t [of "''  ''" "'' ''" "''-122.33''" "''   ''" "''47.61''" "'' ''" "'' ''" "Fin (- (12233 / 100))" "Fin (4761 / 100)" CNone]
    sp tk fl
  have 1: "parse_point (CStr (''  '' @ ''POINT ('' @ '' '' @ ''-122.33'' @ ''   '' @ ''47.61'' @ '' '' @ '')'' @ '' ''))
     = (Fin (- (12233 / 100)), Fin (4761 / 100))" by blast
  from t [of "[]" "[]" "''-122.33''" "'' ''" "''47.61''" "[]" "[]" "Fin (- (12233 / 100))" "Fin (4761 / 100)" "CStr ''POINT (-122.33 47.61)''"]
    sp tk fl ne
  have 2: "parse_point (CStr (''POINT ('' @ ''-122.33'' @ '' '' @ ''47.61'' @ '')''))
     = (Fin (- (12233 / 100)), Fin (4761 / 100))"
    and 3: "\<exists>l m1 a m2 b m3 r x y.
          CStr ''POINT (-122.33 47.61)'' = CStr (l @ ''POINT ('' @ m1 @ a @ m2 @ b @ m3 @ '')'' @ r)
          \<and> all_space l \<and> all_space m1 \<and> token a \<and> all_space m2 \<and> m2 \<noteq> [] \<and> token b
          \<and> all_space m3 \<and> all_space r \<and> py_float a = Some x \<and> py_float b = Some y
          \<and> parse_point (CStr ''POINT (-122.33 47.61)'') = (x, y)"
    by blast+
  from 1 2 3 ne show ?thesis by blast
qed


text \<open>
  Claim C3 as stated fails: with three spaces between the two numbers the input deviates
  from the single-space format and is decoded all the same.
\<close>

theorem parse_point_extra_whitespace_counterexample:
  "parse_point (CStr ''POINT (-122.33   47.61)'') = (Fin (- (12233 / 100)), Fin (4761 / 100))
   \<and> parse_point (CStr ''POINT (-122.33   47.61)'') \<noteq> (NaN, NaN)
   \<and> ''POINT (-122.33   47.61)'' \<noteq> ''POINT (-122.33 47.61)''"
  by (simp add: pp_eval)


section \<open>Properties of the normaliser\<close>

subsection \<open>Renaming\<close>

lemma map_of_filter_key:
  "map_of (filter (\<lambda>(k, v). P k) m) c = (if P c then map_of m c else None)"
  by (induction m) auto

lemma column_map_disjoint: "set (map snd column_map) \<inter> set (map fst column_map) = {}"
  by (simp add: column_map_def)

lemma column_map_value_no_key: "map_of column_map c = Some c' \<Longrightarrow> map_of column_map c' = None"
proof -
  assume "map_of column_map c = Some c'"
  then have "(c, c') \<in> set column_map" by (rule map_of_SomeD)
  then have "c' \<in> set (map snd column_map)" by force
  with column_map_disjoint have "c' \<notin> set (map fst column_map)" by blast
  then show ?thesis by (simp add: map_of_eq_None_iff)
qed

lemma canonical_idem: "map_of column_map (canonical c) = None"
  by (auto simp: canonical_def column_map_value_no_key split: option.splits)

lemma rename_columns_eq: "rename_columns df = map (\<lambda>(c, vs). (canonical c, vs)) df"
proof -
  have "\<And>c vs. (c, vs) \<in> set df \<Longrightarrow>
      (case map_of (filter (\<lambda>(k, v). has_column df k) column_map) c of None \<Rightarrow> c | Some c' \<Rightarrow> c')
      = canonical c"
    by (force simp: map_of_filter_key has_column_def columns_def canonical_def)
  then show ?thesis
    by (auto simp: rename_columns_def rename_def)
qed

lemma canonical_canonical: "canonical (canonical c) = canonical c"
  using canonical_idem [of c] by (simp add: canonical_def [of "canonical c"])

text \<open>
  Claim C9. Renaming is idempotent: applying the renaming step of
  \<^verbatim>\<open>load_and_prepare_data\<close> to its own result changes nothing, so the columns after two
  rounds are the columns after one. The reason is that the table matches labels exactly and
  no canonical name is itself a source name of the table.
\<close>

theorem rename_columns_idempotent:
  "rename_columns (rename_columns df) = rename_columns df
   \<and> columns (rename_columns (rename_columns df)) = columns (rename_columns df)
   \<and> set (map snd column_map) \<inter> set (map fst column_map) = {}"
  using column_map_disjoint
  by (simp add: rename_columns_eq canonical_canonical case_prod_unfold comp_def)

subsection \<open>Reading and writing columns\<close>

lemma has_column_map_of: "has_column df c \<longleftrightarrow> map_of df c \<noteq> None"
  by (simp add: has_column_def columns_def map_of_eq_None_iff)

lemma getitem_map_of: "getitem df c = Inr vs \<longleftrightarrow> map_of df c = Some vs"
  by (simp add: getitem_def split: option.splits)

lemma map_of_setitem: "map_of (setitem c vs df) k = (if k = c then Some vs else map_of df k)"
  by (simp add: setitem_def update_conv')

lemma map_of_coerce_column:
  "map_of (coerce_column num df c) k =
     (if k = c then map_option (map (to_numeric_coerce num)) (map_of df k) else map_of df k)"
  by (auto simp: coerce_column_def has_column_map_of map_of_setitem split: option.splits)

lemma map_of_expand_geometry:
  "k \<noteq> ''longitude'' \<Longrightarrow> k \<noteq> ''latitude'' \<Longrightarrow> map_of (expand_geometry df) k = map_of df k"
  by (auto simp: expand_geometry_def Let_def map_of_setitem split: option.splits)


lemma map_of_load:
  "map_of (load_and_prepare_data num raw) k =
    (if k = ''longitude'' \<or> k = ''latitude'' then map_of (load_and_prepare_data num raw) k
     else if k \<in> set [''electric_range'', ''base_msrp'', ''model_year'']
       then map_option (map (to_numeric_coerce num)) (map_of (rename_columns raw) k)
     else map_of (rename_columns raw) k)"
  by (auto simp: load_and_prepare_data_def map_of_expand_geometry map_of_coerce_column)


text \<open>
  Claim C6. For each of the columns \<^verbatim>\<open>electric_range\<close>, \<^verbatim>\<open>base_msrp\<close> and \<^verbatim>\<open>model_year\<close>
  that the frame has after the renaming, the normalised frame holds that column with every
  cell coerced: a string that the number reader rejects becomes NaN, which is missing and
  is not zero; a string it accepts becomes its number; a number stays as it is; \<^verbatim>\<open>None\<close>
  becomes missing. Nothing is raised: the result is a frame for every input.
\<close>

theorem numeric_coercion:
  assumes "wf_frame (rename_columns raw)"
    and "col \<in> set [''electric_range'', ''base_msrp'', ''model_year'']"
    and "getitem (rename_columns raw) col = Inr vs"
  shows "getitem (load_and_prepare_data num raw) col = Inr (map (to_numeric_coerce num) vs)
     \<and> (\<forall>v \<in> set vs.
          (\<forall>s. v = CStr s \<and> num s = None \<longrightarrow>
             isna (to_numeric_coerce num v) \<and> to_numeric_coerce num v \<noteq> CNum (Fin 0))
        \<and> (\<forall>s x. v = CStr s \<and> num s = Some x \<longrightarrow> to_numeric_coerce num v = CNum x)
        \<and> (\<forall>x. v = CNum x \<longrightarrow> to_numeric_coerce num v = CNum x)
        \<and> (v = CNone \<longrightarrow> isna (to_numeric_coerce num v)))"
proof -
  from assms(3) have "map_of (rename_columns raw) col = Some vs"
    by (simp add: getitem_map_of)
  moreover from assms(2) have "col \<noteq> ''longitude''" "col \<noteq> ''latitude''" by auto
  ultimately have "map_of (load_and_prepare_data num raw) col = Some (map (to_numeric_coerce num) vs)"
    using assms(2) by (subst map_of_load) simp
  then have "getitem (load_and_prepare_data num raw) col = Inr (map (to_numeric_coerce num) vs)"
    by (simp add: getitem_map_of)
  then show ?thesis by auto
qed

theorem numeric_coercion_witness:
  "getitem (load_and_prepare_data py_float
      [(''Base MSRP'', [CStr ''N/A'', CStr ''31950'', CNum (Fin 5), CNone])]) ''base_msrp''
     = Inr [CNum NaN, CNum (Fin 31950), CNum (Fin 5), CNum NaN]
   \<and> isna (to_numeric_coerce py_float (CStr ''N/A''))
   \<and> to_numeric_coerce py_float (CStr ''N/A'') \<noteq> CNum (Fin 0)"
proof -
  let ?raw = "[(''Base MSRP'', [CStr ''N/A'', CStr ''31950'', CNum (Fin 5), CNone])]"
  let ?vs = "[CStr ''N/A'', CStr ''31950'', CNum (Fin 5), CNone]"
  have r: "rename_columns ?raw = [(''base_msrp'', ?vs)]"
    by (simp add: rename_columns_def rename_def column_map_def has_column_def columns_def)
  have 1: "wf_frame (rename_columns ?raw)" unfolding r by (simp add: wf_frame_def columns_def nrows_def)
  have 2: "''base_msrp'' \<in> set [''electric_range'', ''base_msrp'', ''model_year'']" by simp
  have 3: "getitem (rename_columns ?raw) ''base_msrp'' = Inr ?vs" unfolding r by (simp add: getitem_def)
  have 4: "py_float ''N/A'' = None" by (simp add: pp_eval)
  have 5: "py_float ''31950'' = Some (Fin 31950)" by (simp add: pp_eval)
  from numeric_coercion [OF 1 2 3, of py_float] 4 5 show ?thesis by simp
qed

subsection \<open>The coordinate columns\<close>

lemma py_float_nan_iff:
  "py_float t = Some NaN \<longleftrightarrow> map lower (snd (take_sign (float_strip t))) = ''nan''"
  by (auto simp: py_float_def Let_def case_prod_unfold split: option.splits if_splits)








section \<open>Properties of the chart builders\<close>

subsection \<open>Columns of a well-formed frame\<close>

lemma getitem_has_column: "getitem df c = Inr vs \<Longrightarrow> has_column df c"
  by (simp add: getitem_map_of has_column_map_of)

lemma getitem_absent: "\<not> has_column df c \<Longrightarrow> getitem df c = Inl KeyError"
  by (simp add: getitem_def has_column_map_of)

lemma getitem_mem: "getitem df c = Inr vs \<Longrightarrow> (c, vs) \<in> set df"
  by (simp add: getitem_map_of map_of_SomeD)

lemma wf_length: "wf_frame df \<Longrightarrow> getitem df c = Inr vs \<Longrightarrow> length vs = nrows df"
  by (auto simp: wf_frame_def list_all_iff dest!: getitem_mem)

lemma getitem_nonempty: "getitem df c = Inr vs \<Longrightarrow> df \<noteq> []"
  by (auto simp: getitem_def)

subsection \<open>Dropping rows\<close>


lemma select_rows_getitem:
  "getitem df c = Inr vs \<Longrightarrow> getitem (select_rows m df) c = Inr (map snd (filter fst (zip m vs)))"
  by (induction df) (auto simp: getitem_def select_rows_def split: option.splits if_splits)

lemma nrows_select_rows:
  assumes "wf_frame df" "length m = nrows df"
  shows "nrows (select_rows m df) = length (filter id m)"
proof (cases df)
  case Nil
  with assms show ?thesis by (simp add: select_rows_def nrows_def)
next
  case (Cons p rest)
  obtain c vs where p: "p = (c, vs)" by (cases p)
  with Cons assms have len: "length vs = length m" by (simp add: nrows_def)
  have "length (filter fst (zip m vs)) = length (filter id m)" using len
  proof (induction m arbitrary: vs)
    case Nil
    then show ?case by simp
  next
    case (Cons k ks)
    then show ?case by (cases vs) auto
  qed
  with Cons p show ?thesis by (simp add: select_rows_def nrows_def)
qed

lemma mask_one:
  assumes "wf_frame df" "getitem df a = Inr as"
  shows "notna_mask df [a] = Inr (map (\<lambda>v. \<not> isna v) as)"
proof -
  have "length as = nrows df" using assms by (rule wf_length)
  then have "map2 (\<lambda>v keep. \<not> isna v \<and> keep) as (replicate (nrows df) True) = map (\<lambda>v. \<not> isna v) as"
    by (intro nth_equalityI) auto
  with assms(2) show ?thesis by simp
qed

lemma mask_two:
  assumes "wf_frame df" "getitem df a = Inr as" "getitem df b = Inr bs"
  shows "notna_mask df [a, b] = Inr (map (\<lambda>(x, y). \<not> isna x \<and> \<not> isna y) (zip as bs))"
proof -
  have l: "length as = nrows df" "length bs = nrows df" using assms by (auto intro: wf_length)
  have "map2 (\<lambda>v keep. \<not> isna v \<and> keep) as (map (\<lambda>v. \<not> isna v) bs)
      = map (\<lambda>(x, y). \<not> isna x \<and> \<not> isna y) (zip as bs)"
    using l by (intro nth_equalityI) auto
  with assms(2) mask_one [OF assms(1,3)] show ?thesis by simp
qed

lemma dropna_one:
  assumes "wf_frame df" "getitem df a = Inr as"
  shows "\<exists>w. dropna [a] df = Inr w \<and> nrows w = length (filter (\<lambda>v. \<not> isna v) as)
     \<and> w = select_rows (map (\<lambda>v. \<not> isna v) as) df"
proof -
  let ?m = "map (\<lambda>v. \<not> isna v) as"
  have "length ?m = nrows df" using assms by (simp add: wf_length)
  from nrows_select_rows [OF assms(1) this]
  have "nrows (select_rows ?m df) = length (filter (\<lambda>v. \<not> isna v) as)"
    by (simp add: filter_map comp_def)
  then show ?thesis using mask_one [OF assms] by (simp add: dropna_def)
qed

lemma dropna_two:
  assumes "wf_frame df" "getitem df a = Inr as" "getitem df b = Inr bs"
  shows "\<exists>w. dropna [a, b] df = Inr w \<and> nrows w = length (complete_rows as bs)
     \<and> w = select_rows (map (\<lambda>(x, y). \<not> isna x \<and> \<not> isna y) (zip as bs)) df"
proof -
  let ?m = "map (\<lambda>(x, y). \<not> isna x \<and> \<not> isna y) (zip as bs)"
  have "length ?m = nrows df" using assms by (simp add: wf_length)
  from nrows_select_rows [OF assms(1) this]
  have "nrows (select_rows ?m df) = length (complete_rows as bs)"
    by (simp add: filter_map comp_def complete_rows_def case_prod_unfold)
  then show ?thesis using mask_two [OF assms] by (simp add: dropna_def)
qed

lemma select_rows_nonempty: "df \<noteq> [] \<Longrightarrow> select_rows m df \<noteq> []"
  by (simp add: select_rows_def)

subsection \<open>Counting values\<close>

lemma set_distinct_values: "set (distinct_values xs) = set xs"
  by (simp add: distinct_values_def)

lemma distinct_distinct_values: "distinct (distinct_values xs)"
  by (simp add: distinct_values_def)

lemma length_distinct_values: "length (distinct_values xs) = card (set xs)"
  by (metis distinct_card distinct_distinct_values set_distinct_values)

lemma set_sort_desc: "set (sort_desc ws) = set ws"
  by (simp add: sort_desc_def)

lemma length_sort_desc: "length (sort_desc ws) = length ws"
  by (simp add: sort_desc_def)

lemma sort_desc_Nil: "sort_desc ws = [] \<longleftrightarrow> ws = []"
  by (metis length_sort_desc length_0_conv)

lemma sorted_sort_desc: "sorted_wrt (\<lambda>a b. snd b \<le> snd a) (sort_desc ws)"
proof -
  have "sorted (map (\<lambda>w. - int (snd w)) (sort_desc ws))"
    by (simp add: sort_desc_def)
  then show ?thesis
    by (simp add: sorted_wrt_map)
qed

lemma sum_insort_key: "sum_list (map g (insort_key f x xs)) = g x + sum_list (map g xs)"
  for g :: "'a \<Rightarrow> nat"
  by (induction xs) auto

lemma sum_sort_key: "sum_list (map g (sort_key f xs)) = sum_list (map g xs)"
  for g :: "'a \<Rightarrow> nat"
  by (induction xs) (auto simp: sum_insort_key)

lemma distinct_map_insort_key:
  "distinct (map g (insort_key f x xs)) \<longleftrightarrow> g x \<notin> g ` set xs \<and> distinct (map g xs)"
  by (induction xs) (auto simp: set_insort_key)

lemma distinct_map_sort_key: "distinct (map g (sort_key f xs)) \<longleftrightarrow> distinct (map g xs)"
  by (induction xs) (auto simp: distinct_map_insort_key)

lemma count_list_filter: "P v \<Longrightarrow> count_list (filter P vs) v = count_list vs v"
  by (induction vs) auto

lemma sum_count_distinct_values:
  "sum_list (map (count_list xs) (distinct_values xs)) = length xs"
proof -
  have "sum_list (map (count_list xs) (distinct_values xs)) = sum (count_list xs) (set xs)"
    using sum_list_distinct_conv_sum_set [OF distinct_distinct_values, of "count_list xs" xs]
    by (simp add: set_distinct_values)
  also have "\<dots> = length xs" by (simp add: sum_count_set)
  finally show ?thesis .
qed

lemma value_counts_Nil: "value_counts vs = [] \<longleftrightarrow> (\<forall>v \<in> set vs. isna v)"
proof -
  have "distinct_values xs = [] \<longleftrightarrow> xs = []" for xs :: "cell list"
    by (metis set_distinct_values set_empty)
  then show ?thesis
    by (auto simp: value_counts_def Let_def sort_desc_Nil filter_empty_conv)
qed

lemma set_value_counts:
  "set (value_counts vs) = (\<lambda>v. (v, count_list vs v)) ` {v \<in> set vs. \<not> isna v}"
proof -
  have "(v, count_list (filter (\<lambda>v. \<not> isna v) vs) v) = (v, count_list vs v)" if "\<not> isna v" for v
    using that count_list_filter [of "\<lambda>v. \<not> isna v" v vs] by simp
  then show ?thesis
    by (auto simp: value_counts_def Let_def set_sort_desc set_distinct_values image_iff)
qed

lemma distinct_value_counts: "distinct (map fst (value_counts vs))"
  by (simp add: value_counts_def Let_def sort_desc_def distinct_map_sort_key comp_def
      distinct_distinct_values)

lemma length_value_counts: "length (value_counts vs) = card {v \<in> set vs. \<not> isna v}"
proof -
  have "{v \<in> set vs. \<not> isna v} = set (filter (\<lambda>v. \<not> isna v) vs)" by auto
  then show ?thesis
    by (simp add: value_counts_def Let_def length_sort_desc length_distinct_values)
qed

lemma sum_value_counts: "sum_list (map snd (value_counts vs)) = length (filter (\<lambda>v. \<not> isna v) vs)"
  by (simp add: value_counts_def Let_def sort_desc_def sum_sort_key comp_def sum_count_distinct_values)

lemma sorted_value_counts: "sorted_wrt (\<lambda>a b. snd b \<le> snd a) (value_counts vs)"
  by (simp add: value_counts_def Let_def sorted_sort_desc)

lemma sum_take_le: "sum_list (map g (take n xs)) \<le> sum_list (map g xs)" for g :: "'a \<Rightarrow> nat"
proof -
  have "sum_list (map g xs) = sum_list (map g (take n xs)) + sum_list (map g (drop n xs))"
    by (metis append_take_drop_id map_append sum_list_append)
  then show ?thesis by simp
qed

lemma head_counts_frame: "head n (counts_frame c ws) = counts_frame c (take n ws)"
  by (simp add: head_def counts_frame_def take_map)

lemma nrows_counts_frame: "nrows (counts_frame c ws) = length ws"
  by (simp add: counts_frame_def nrows_def)

subsection \<open>Sorting by value\<close>

lemma sum_filter_split:
  "sum_list (map g (filter P xs)) + sum_list (map g (filter (\<lambda>x. \<not> P x) xs)) = sum_list (map g xs)"
  for g :: "'a \<Rightarrow> nat"
  by (induction xs) auto

lemma sort_values_props:
  assumes "sort_values ws = Inr ys"
  shows "set ys = set ws" and "sum_list (map snd ys) = sum_list (map snd ws)"
    and "distinct (map fst ws) \<Longrightarrow> distinct (map fst ys)"
proof -
  let ?A = "filter (\<lambda>w. fst w = CNum NInf) ws"
  let ?B = "filter (\<lambda>w. is_fin (fst w)) ws"
  let ?C = "filter (\<lambda>w. fst w = CNum PInf) ws"
  let ?D = "filter (\<lambda>w. fst w = CNum NaN) ws"
  have cls: "is_num c \<Longrightarrow> c = CNum NInf \<or> is_fin c \<or> c = CNum PInf \<or> c = CNum NaN" for c
    by (cases c; simp add: is_num_def is_fin_def) (rename_tac x, case_tac x, auto)
  have fin: "is_fin c \<Longrightarrow> c \<noteq> CNum NInf \<and> c \<noteq> CNum PInf \<and> c \<noteq> CNum NaN" for c
    by (auto simp: is_fin_def)
  show "set ys = set ws"
  proof (cases "list_all (\<lambda>w. is_num (fst w)) ws")
    case True
    with assms have ys: "ys = ?A @ sort_key (\<lambda>w. fin_val (fst w)) ?B @ ?C @ ?D"
      by (simp add: sort_values_def)
    from True cls show ?thesis unfolding ys by (auto simp: list_all_iff)
  next
    case False
    with assms show ?thesis by (auto simp: sort_values_def split: if_splits)
  qed
  show "sum_list (map snd ys) = sum_list (map snd ws)"
  proof (cases "list_all (\<lambda>w. is_num (fst w)) ws")
    case True
    with assms have ys: "ys = ?A @ sort_key (\<lambda>w. fin_val (fst w)) ?B @ ?C @ ?D"
      by (simp add: sort_values_def)
    have part: "sum_list (map snd ?A) + sum_list (map snd ?B) + sum_list (map snd ?C) + sum_list (map snd ?D)
        = sum_list (map snd ws)" using True
    proof (induction ws)
      case Nil
      then show ?case by simp
    next
      case (Cons w ws)
      then have "is_num (fst w)" by simp
      from cls [OF this] fin [of "fst w"] Cons show ?case by auto
    qed
    show ?thesis unfolding ys using part by (simp add: sum_sort_key)
  next
    case False
    with assms show ?thesis by (auto simp: sort_values_def sum_sort_key split: if_splits)
  qed
  show "distinct (map fst ys)" if d: "distinct (map fst ws)"
  proof (cases "list_all (\<lambda>w. is_num (fst w)) ws")
    case True
    with assms have ys: "ys = ?A @ sort_key (\<lambda>w. fin_val (fst w)) ?B @ ?C @ ?D"
      by (simp add: sort_values_def)
    have nf: "\<not> is_fin (CNum NInf)" "\<not> is_fin (CNum PInf)" "\<not> is_fin (CNum NaN)"
      by (simp_all add: is_fin_def)
    show ?thesis unfolding ys using d nf
      by (auto simp: distinct_map_sort_key distinct_map_filter)
  next
    case False
    with assms d show ?thesis
      by (auto simp: sort_values_def distinct_map_sort_key split: if_splits)
  qed
qed

lemma sort_values_Nil: "sort_values [] = Inr []"
  by (simp add: sort_values_def)

subsection \<open>Grouping\<close>

lemma groupby_size_Nil: "groupby_size (zip as bs) = [] \<longleftrightarrow> complete_rows as bs = []"
proof -
  have "distinct_values xs = [] \<longleftrightarrow> xs = []" for xs :: "(cell \<times> cell) list"
    by (metis set_distinct_values set_empty)
  then show ?thesis by (simp add: groupby_size_def complete_rows_def Let_def)
qed

lemma length_groupby_size: "length (groupby_size (zip as bs)) = card (set (complete_rows as bs))"
  by (simp add: groupby_size_def complete_rows_def Let_def length_distinct_values)

lemma top_models_props:
  "length (top_models_of as bs) = min 15 (card (set (complete_rows as bs)))"
  "sorted_wrt (\<lambda>a b. snd b \<le> snd a) (top_models_of as bs)"
  "top_models_of as bs = [] \<longleftrightarrow> complete_rows as bs = []"
proof -
  show "length (top_models_of as bs) = min 15 (card (set (complete_rows as bs)))"
    by (simp add: top_models_of_def length_sort_desc length_groupby_size min.commute)
  show "sorted_wrt (\<lambda>a b. snd b \<le> snd a) (top_models_of as bs)"
    by (simp add: top_models_of_def sorted_wrt_take sorted_sort_desc)
  show "top_models_of as bs = [] \<longleftrightarrow> complete_rows as bs = []"
    by (simp add: top_models_of_def sort_desc_Nil groupby_size_Nil)
qed

subsection \<open>What each builder sends\<close>

lemma frame_empty_nrows: "df \<noteq> [] \<Longrightarrow> frame_empty df \<longleftrightarrow> nrows df = 0"
  by (simp add: frame_empty_def)

lemma columns_select_rows: "columns (select_rows m df) = columns df"
  by (simp add: columns_def select_rows_def case_prod_unfold comp_def)

lemma columns_sample: "columns (sample seeded ambient n r df) = columns df"
  by (simp add: columns_def sample_def Let_def case_prod_unfold comp_def)

lemma scatter_mapbox_sample:
  "scatter_mapbox (sample seeded ambient n r (select_rows m df)) title =
     (if list_all (has_column df) hover_data
      then Inr (Figure ''scatter_mapbox'' (sample seeded ambient n r (select_rows m df)) title)
      else Inl ValueError)"
proof -
  have "has_column (sample seeded ambient n r (select_rows m df)) = has_column df"
    by (rule ext) (simp add: has_column_def columns_sample columns_select_rows)
  then show ?thesis by (simp add: scatter_mapbox_def)
qed

lemma map_outcome:
  assumes "wf_frame df" "getitem df ''longitude'' = Inr lons" "getitem df ''latitude'' = Inr lats"
  shows "\<exists>w. dropna [''longitude'', ''latitude''] df = Inr w
     \<and> nrows w = length (complete_rows lons lats)
     \<and> w = select_rows (map (\<lambda>(x, y). \<not> isna x \<and> \<not> isna y) (zip lons lats)) df
     \<and> plot_ev_map seeded ambient df =
        (if complete_rows lons lats = [] then Done [Text map_no_rows]
         else if list_all (has_column df) hover_data then
           Done [Text map_heading, Text map_caption,
                 Plotly (Figure ''scatter_mapbox''
                    (sample seeded ambient (min 5000 (nrows w)) (Some 42) w) map_title)]
         else Raised ValueError [Text map_heading, Text map_caption])"
proof -
  from dropna_two [OF assms] obtain w where
    w: "dropna [''longitude'', ''latitude''] df = Inr w" "nrows w = length (complete_rows lons lats)"
       "w = select_rows (map (\<lambda>(x, y). \<not> isna x \<and> \<not> isna y) (zip lons lats)) df"
    by blast
  have "df \<noteq> []" using assms(2) by (rule getitem_nonempty)
  then have "w \<noteq> []" unfolding w(3) by (rule select_rows_nonempty)
  then have e: "frame_empty w \<longleftrightarrow> complete_rows lons lats = []"
    by (simp add: frame_empty_nrows w(2))
  have h: "has_column df ''longitude''" "has_column df ''latitude''"
    using assms(2,3) by (auto intro: getitem_has_column)
  have sm: "scatter_mapbox (sample seeded ambient (min 5000 (nrows w)) (Some 42) w) map_title =
     (if list_all (has_column df) hover_data
      then Inr (Figure ''scatter_mapbox''
                  (sample seeded ambient (min 5000 (nrows w)) (Some 42) w) map_title)
      else Inl ValueError)"
    unfolding w(3) by (rule scatter_mapbox_sample)
  have "plot_ev_map seeded ambient df =
        (if complete_rows lons lats = [] then Done [Text map_no_rows]
         else if list_all (has_column df) hover_data then
           Done [Text map_heading, Text map_caption,
                 Plotly (Figure ''scatter_mapbox''
                    (sample seeded ambient (min 5000 (nrows w)) (Some 42) w) map_title)]
         else Raised ValueError [Text map_heading, Text map_caption])"
    unfolding plot_ev_map_def using h w(1) e sm by simp
  with w show ?thesis by blast
qed

lemma msrp_outcome:
  assumes "wf_frame df" "getitem df ''base_msrp'' = Inr ms" "getitem df ''ev_type'' = Inr vs"
  shows "\<exists>w. dropna [''base_msrp'', ''ev_type''] df = Inr w
     \<and> nrows w = length (complete_rows ms vs)
     \<and> plot_msrp_by_ev_type df =
        (if complete_rows ms vs = []
         then Done [Text msrp_heading, Text msrp_caption, Text msrp_no_rows]
         else Done [Text msrp_heading, Text msrp_caption, Plotly (Figure ''box'' w msrp_title)])"
proof -
  from dropna_two [OF assms] obtain w where
    w: "dropna [''base_msrp'', ''ev_type''] df = Inr w" "nrows w = length (complete_rows ms vs)"
       "w = select_rows (map (\<lambda>(x, y). \<not> isna x \<and> \<not> isna y) (zip ms vs)) df"
    by blast
  have "df \<noteq> []" using assms(2) by (rule getitem_nonempty)
  then have "w \<noteq> []" unfolding w(3) by (rule select_rows_nonempty)
  then have e: "frame_empty w \<longleftrightarrow> complete_rows ms vs = []"
    by (simp add: frame_empty_nrows w(2))
  have h: "has_column df ''base_msrp''" "has_column df ''ev_type''"
    using assms(2,3) by (auto intro: getitem_has_column)
  have "plot_msrp_by_ev_type df =
        (if complete_rows ms vs = []
         then Done [Text msrp_heading, Text msrp_caption, Text msrp_no_rows]
         else Done [Text msrp_heading, Text msrp_caption, Plotly (Figure ''box'' w msrp_title)])"
    unfolding plot_msrp_by_ev_type_def using h w(1) e by simp
  with w show ?thesis by blast
qed

lemma range_outcome:
  assumes "wf_frame df" "getitem df ''electric_range'' = Inr rs"
  shows "\<exists>w. dropna [''electric_range''] df = Inr w
     \<and> nrows w = length (filter (\<lambda>v. \<not> isna v) rs)
     \<and> plot_electric_range_distribution df =
        (if list_all isna rs
         then Done [Text range_heading, Text range_caption, Text range_no_rows]
         else Done [Text range_heading, Text range_caption,
                    Plotly (Figure ''histogram'' w range_title)])"
proof -
  from dropna_one [OF assms] obtain w where
    w: "dropna [''electric_range''] df = Inr w" "nrows w = length (filter (\<lambda>v. \<not> isna v) rs)"
       "w = select_rows (map (\<lambda>v. \<not> isna v) rs) df"
    by blast
  have "df \<noteq> []" using assms(2) by (rule getitem_nonempty)
  then have "w \<noteq> []" unfolding w(3) by (rule select_rows_nonempty)
  then have e: "frame_empty w \<longleftrightarrow> list_all isna rs"
    by (simp add: frame_empty_nrows w(2) filter_empty_conv list_all_iff)
  have h: "has_column df ''electric_range''"
    using assms(2) by (auto intro: getitem_has_column)
  have "plot_electric_range_distribution df =
        (if list_all isna rs
         then Done [Text range_heading, Text range_caption, Text range_no_rows]
         else Done [Text range_heading, Text range_caption,
                    Plotly (Figure ''histogram'' w range_title)])"
    unfolding plot_electric_range_distribution_def using h w(1) e by simp
  with w show ?thesis by blast
qed

lemma value_counts_Nil_all: "value_counts vs = [] \<longleftrightarrow> list_all isna vs"
  by (simp add: value_counts_Nil list_all_iff)

lemma share_outcome:
  assumes "getitem df ''ev_type'' = Inr vs"
  shows "plot_bev_phev_share df =
     (if list_all isna vs then Done [Text share_no_rows]
      else Done [Text share_heading, Text share_caption,
                 Plotly (Figure ''pie'' (counts_frame ''ev_type'' (value_counts vs)) share_title)])"
  using assms getitem_has_column [OF assms]
  by (simp add: plot_bev_phev_share_def Let_def value_counts_Nil_all)

lemma cities_outcome:
  assumes "getitem df ''city'' = Inr vs"
  shows "plot_top_cities df =
     (if list_all isna vs then Done [Text cities_no_rows]
      else Done [Text cities_heading, Text cities_caption,
                 Plotly (Figure ''bar'' (counts_frame ''city'' (take 15 (value_counts vs)))
                           cities_title)])"
  using assms getitem_has_column [OF assms]
  by (simp add: plot_top_cities_def Let_def value_counts_Nil_all head_counts_frame)

lemma counties_outcome:
  assumes "getitem df ''county'' = Inr vs"
  shows "plot_top_counties df =
     (if list_all isna vs then Done [Text counties_no_rows]
      else Done [Text counties_heading, Text counties_caption,
                 Plotly (Figure ''bar'' (counts_frame ''county'' (take 15 (value_counts vs)))
                           counties_title)])"
  using assms getitem_has_column [OF assms]
  by (simp add: plot_top_counties_def Let_def value_counts_Nil_all head_counts_frame)

lemma yearly_outcome:
  assumes "getitem df ''model_year'' = Inr vs"
  shows "plot_yearly_trend df =
     (case sort_values (value_counts vs) of
        Inl e \<Rightarrow> Raised e [Text yearly_heading, Text yearly_caption]
      | Inr year_trend \<Rightarrow>
          if list_all isna vs
          then Done [Text yearly_heading, Text yearly_caption, Text yearly_no_rows]
          else Done [Text yearly_heading, Text yearly_caption,
                     Plotly (Figure ''line'' (counts_frame ''model_year'' year_trend)
                               yearly_title)])"
proof (cases "sort_values (value_counts vs)")
  case (Inl e)
  with assms getitem_has_column [OF assms] show ?thesis
    by (simp add: plot_yearly_trend_def)
next
  case (Inr ys)
  from sort_values_props(1) [OF Inr] have "ys = [] \<longleftrightarrow> value_counts vs = []"
    by (metis set_empty)
  with Inr assms getitem_has_column [OF assms] show ?thesis
    by (simp add: plot_yearly_trend_def value_counts_Nil_all)
qed

lemma makes_outcome:
  assumes "getitem df ''make'' = Inr makes" "getitem df ''model'' = Inr models"
  shows "plot_top_makes_models df =
     (if complete_rows makes models = [] then Done [Text makes_no_rows]
      else (case make_model (map fst (top_models_of makes models)) of
              Inl e \<Rightarrow> Raised e [Text makes_heading, Text makes_caption]
            | Inr mm \<Rightarrow>
                Done [Text makes_heading, Text makes_caption,
                      Plotly (Figure ''bar''
                        [(''make'', map (\<lambda>w. fst (fst w)) (top_models_of makes models)),
                         (''model'', map (\<lambda>w. snd (fst w)) (top_models_of makes models)),
                         (''count'', map (\<lambda>w. count_cell (snd w)) (top_models_of makes models)),
                         (''make_model'', mm)]
                        makes_title)]))"
  using assms by (simp add: plot_top_makes_models_def Let_def top_models_props(3))

subsection \<open>Absent columns\<close>

lemma guarded_builders_absent_column:
  "\<not> (has_column df ''longitude'' \<and> has_column df ''latitude'')
     \<Longrightarrow> plot_ev_map seeded ambient df = Done [Text map_no_columns]"
  "\<not> has_column df ''ev_type'' \<Longrightarrow> plot_bev_phev_share df = Done [Text share_no_columns]"
  "\<not> has_column df ''electric_range''
     \<Longrightarrow> plot_electric_range_distribution df = Done [Text range_no_columns]"
  "\<not> has_column df ''city'' \<Longrightarrow> plot_top_cities df = Done [Text cities_no_columns]"
  "\<not> has_column df ''county'' \<Longrightarrow> plot_top_counties df = Done [Text counties_no_columns]"
  "\<not> (has_column df ''base_msrp'' \<and> has_column df ''ev_type'')
     \<Longrightarrow> plot_msrp_by_ev_type df = Done [Text msrp_no_columns]"
  "\<not> has_column df ''model_year'' \<Longrightarrow> plot_yearly_trend df = Done [Text yearly_no_columns]"
  by (auto simp: plot_ev_map_def plot_bev_phev_share_def plot_electric_range_distribution_def
      plot_top_cities_def plot_top_counties_def plot_msrp_by_ev_type_def plot_yearly_trend_def)

lemma makes_absent_column:
  "\<not> (has_column df ''make'' \<and> has_column df ''model'')
     \<Longrightarrow> plot_top_makes_models df = Raised KeyError []"
  by (auto simp: plot_top_makes_models_def getitem_def has_column_map_of split: option.splits)

text \<open>
  Claim C1. Seven builders look for their columns first and send a fixed text when one is
  absent (\<open>guarded_builders_absent_column\<close>). \<^verbatim>\<open>plot_top_makes_models\<close> does not: on a
  frame without a \<^verbatim>\<open>make\<close> column its \<^verbatim>\<open>groupby\<close> raises \<^verbatim>\<open>KeyError\<close> and nothing is sent.
\<close>

theorem plot_top_makes_models_absent_column_raises:
  "plot_top_makes_models [(''city'', [CStr ''Seattle''])] = Raised KeyError []"
  by (simp add: plot_top_makes_models_def getitem_def)

subsection \<open>Empty working sets\<close>

text \<open>
  Claim C5, amended. When the columns a builder needs are present and no row is left after
  its filtering or counting, the builder sends its fixed text for that case and no figure.
  The builders of the map, the top makes and models, the type share, the top cities and
  the top counties send nothing else; the builders of the range distribution, the price by
  type and the yearly trend send their heading and caption first.
\<close>

theorem empty_working_set_fallback:
  assumes "wf_frame df"
  shows
   "(getitem df ''longitude'' = Inr lons \<and> getitem df ''latitude'' = Inr lats
       \<and> complete_rows lons lats = []
     \<longrightarrow> plot_ev_map seeded ambient df = Done [Text map_no_rows])
  \<and> (getitem df ''make'' = Inr makes \<and> getitem df ''model'' = Inr models
       \<and> complete_rows makes models = []
     \<longrightarrow> plot_top_makes_models df = Done [Text makes_no_rows])
  \<and> (getitem df ''ev_type'' = Inr types \<and> list_all isna types
     \<longrightarrow> plot_bev_phev_share df = Done [Text share_no_rows])
  \<and> (getitem df ''city'' = Inr cities \<and> list_all isna cities
     \<longrightarrow> plot_top_cities df = Done [Text cities_no_rows])
  \<and> (getitem df ''county'' = Inr counties \<and> list_all isna counties
     \<longrightarrow> plot_top_counties df = Done [Text counties_no_rows])
  \<and> (getitem df ''electric_range'' = Inr ranges \<and> list_all isna ranges
     \<longrightarrow> plot_electric_range_distribution df
          = Done [Text range_heading, Text range_caption, Text range_no_rows])
  \<and> (getitem df ''base_msrp'' = Inr prices \<and> getitem df ''ev_type'' = Inr types
       \<and> complete_rows prices types = []
     \<longrightarrow> plot_msrp_by_ev_type df
          = Done [Text msrp_heading, Text msrp_caption, Text msrp_no_rows])
  \<and> (getitem df ''model_year'' = Inr years \<and> list_all isna years
     \<longrightarrow> plot_yearly_trend df
          = Done [Text yearly_heading, Text yearly_caption, Text yearly_no_rows])"
proof (intro conjI impI)
  assume "getitem df ''longitude'' = Inr lons \<and> getitem df ''latitude'' = Inr lats
       \<and> complete_rows lons lats = []"
  then show "plot_ev_map seeded ambient df = Done [Text map_no_rows]"
    using map_outcome [OF assms, of lons lats seeded ambient] by auto
next
  assume "getitem df ''make'' = Inr makes \<and> getitem df ''model'' = Inr models
       \<and> complete_rows makes models = []"
  then show "plot_top_makes_models df = Done [Text makes_no_rows]"
    by (simp add: makes_outcome)
next
  assume "getitem df ''ev_type'' = Inr types \<and> list_all isna types"
  then show "plot_bev_phev_share df = Done [Text share_no_rows]"
    by (simp add: share_outcome)
next
  assume "getitem df ''city'' = Inr cities \<and> list_all isna cities"
  then show "plot_top_cities df = Done [Text cities_no_rows]"
    by (simp add: cities_outcome)
next
  assume "getitem df ''county'' = Inr counties \<and> list_all isna counties"
  then show "plot_top_counties df = Done [Text counties_no_rows]"
    by (simp add: counties_outcome)
next
  assume "getitem df ''electric_range'' = Inr ranges \<and> list_all isna ranges"
  then show "plot_electric_range_distribution df
          = Done [Text range_heading, Text range_caption, Text range_no_rows]"
    using range_outcome [OF assms, of ranges] by auto
next
  assume "getitem df ''base_msrp'' = Inr prices \<and> getitem df ''ev_type'' = Inr types
       \<and> complete_rows prices types = []"
  then show "plot_msrp_by_ev_type df
          = Done [Text msrp_heading, Text msrp_caption, Text msrp_no_rows]"
    using msrp_outcome [OF assms, of prices types] by auto
next
  assume h: "getitem df ''model_year'' = Inr years \<and> list_all isna years"
  then have "value_counts years = []" by (simp add: value_counts_Nil_all)
  with h show "plot_yearly_trend df
          = Done [Text yearly_heading, Text yearly_caption, Text yearly_no_rows]"
    by (simp add: yearly_outcome sort_values_Nil)
qed

theorem empty_working_set_fallback_witness:
  "plot_ev_map first_rows descending blank_frame = Done [Text map_no_rows]
   \<and> plot_top_makes_models blank_frame = Done [Text makes_no_rows]
   \<and> plot_bev_phev_share blank_frame = Done [Text share_no_rows]
   \<and> plot_top_cities blank_frame = Done [Text cities_no_rows]
   \<and> plot_top_counties blank_frame = Done [Text counties_no_rows]
   \<and> plot_electric_range_distribution blank_frame
       = Done [Text range_heading, Text range_caption, Text range_no_rows]
   \<and> plot_msrp_by_ev_type blank_frame
       = Done [Text msrp_heading, Text msrp_caption, Text msrp_no_rows]
   \<and> plot_yearly_trend blank_frame
       = Done [Text yearly_heading, Text yearly_caption, Text yearly_no_rows]"
proof -
  have wf: "wf_frame blank_frame"
    by (simp add: blank_frame_def wf_frame_def columns_def nrows_def)
  have g: "getitem blank_frame ''longitude'' = Inr [CNum NaN]"
    "getitem blank_frame ''latitude'' = Inr [CNum (Fin 1)]"
    "getitem blank_frame ''make'' = Inr [CNone]"
    "getitem blank_frame ''model'' = Inr [CStr ''Leaf'']"
    "getitem blank_frame ''ev_type'' = Inr [CNone]"
    "getitem blank_frame ''city'' = Inr [CNone]"
    "getitem blank_frame ''county'' = Inr [CNone]"
    "getitem blank_frame ''electric_range'' = Inr [CNum NaN]"
    "getitem blank_frame ''base_msrp'' = Inr [CNum NaN]"
    "getitem blank_frame ''model_year'' = Inr [CNone]"
    by (simp_all add: blank_frame_def getitem_def)
  have e: "complete_rows [CNum NaN] [CNum (Fin 1)] = []" "complete_rows [CNone] [CStr ''Leaf''] = []"
    "complete_rows [CNum NaN] [CNone] = []" "list_all isna [CNone]" "list_all isna [CNum NaN]"
    by (simp_all add: complete_rows_def)
  from empty_working_set_fallback [OF wf, where lons = "[CNum NaN]" and lats = "[CNum (Fin 1)]"
      and makes = "[CNone]" and models = "[CStr ''Leaf'']" and types = "[CNone]"
      and cities = "[CNone]" and counties = "[CNone]" and ranges = "[CNum NaN]"
      and prices = "[CNum NaN]" and years = "[CNone]" and seeded = first_rows and ambient = descending]
    g e
  show ?thesis by simp
qed

text \<open>
  Claim C5 as stated fails: with an electric range column that holds no value, the heading
  and the caption of the range distribution are sent before the fixed text.
\<close>

theorem heading_before_fallback_counterexample:
  "plot_electric_range_distribution [(''electric_range'', [CNone])]
     = Done [Text range_heading, Text range_caption, Text range_no_rows]
   \<and> plot_electric_range_distribution [(''electric_range'', [CNone])] \<noteq> Done [Text range_no_rows]
   \<and> range_heading \<noteq> range_no_rows"
  by (simp add: plot_electric_range_distribution_def has_column_def columns_def dropna_def
      getitem_def nrows_def select_rows_def frame_empty_def range_heading_def range_no_rows_def)

subsection \<open>Top-N builders\<close>

lemma take_value_counts_props:
  "length (take 15 (value_counts vs)) = min 15 (card {v \<in> set vs. \<not> isna v})"
  "sorted_wrt (\<lambda>a b. snd b \<le> snd a) (take 15 (value_counts vs))"
  by (simp_all add: length_value_counts min.commute sorted_wrt_take sorted_value_counts)

text \<open>
  Claim C7, amended. Whatever figure a top-N builder sends, its frame has at most 15 rows:
  as many as there are distinct categories, capped at 15, so exactly 15 for thirty distinct
  cities. The counts never increase from one row to the next; equal counts may follow
  each other.
\<close>

theorem top_n_at_most_15:
  assumes "wf_frame df"
  shows
   "(getitem df ''city'' = Inr cities \<longrightarrow>
      (\<forall>evs fig. plot_top_cities df = Done evs \<and> Plotly fig \<in> set evs \<longrightarrow>
         (\<exists>ws. fig_data fig = counts_frame ''city'' ws \<and> nrows (fig_data fig) = length ws
            \<and> length ws = min 15 (card {v \<in> set cities. \<not> isna v})
            \<and> sorted_wrt (\<lambda>a b. snd b \<le> snd a) ws)))
  \<and> (getitem df ''county'' = Inr counties \<longrightarrow>
      (\<forall>evs fig. plot_top_counties df = Done evs \<and> Plotly fig \<in> set evs \<longrightarrow>
         (\<exists>ws. fig_data fig = counts_frame ''county'' ws \<and> nrows (fig_data fig) = length ws
            \<and> length ws = min 15 (card {v \<in> set counties. \<not> isna v})
            \<and> sorted_wrt (\<lambda>a b. snd b \<le> snd a) ws)))
  \<and> (getitem df ''make'' = Inr makes \<and> getitem df ''model'' = Inr models \<longrightarrow>
      (\<forall>evs fig. plot_top_makes_models df = Done evs \<and> Plotly fig \<in> set evs \<longrightarrow>
         (\<exists>ws mm. fig_data fig =
               [(''make'', map (\<lambda>w. fst (fst w)) ws), (''model'', map (\<lambda>w. snd (fst w)) ws),
                (''count'', map (\<lambda>w. count_cell (snd w)) ws), (''make_model'', mm)]
            \<and> nrows (fig_data fig) = length ws
            \<and> length ws = min 15 (card (set (complete_rows makes models)))
            \<and> sorted_wrt (\<lambda>a b. snd b \<le> snd a) ws)))"
proof (intro conjI impI allI)
  fix evs fig
  assume g: "getitem df ''city'' = Inr cities"
    and "plot_top_cities df = Done evs \<and> Plotly fig \<in> set evs"
  then have "fig_data fig = counts_frame ''city'' (take 15 (value_counts cities))"
    by (auto simp: cities_outcome split: if_splits)
  then show "\<exists>ws. fig_data fig = counts_frame ''city'' ws \<and> nrows (fig_data fig) = length ws
            \<and> length ws = min 15 (card {v \<in> set cities. \<not> isna v})
            \<and> sorted_wrt (\<lambda>a b. snd b \<le> snd a) ws"
    using take_value_counts_props [of cities]
    by (intro exI [of _ "take 15 (value_counts cities)"]) (simp add: nrows_counts_frame)
next
  fix evs fig
  assume g: "getitem df ''county'' = Inr counties"
    and "plot_top_counties df = Done evs \<and> Plotly fig \<in> set evs"
  then have "fig_data fig = counts_frame ''county'' (take 15 (value_counts counties))"
    by (auto simp: counties_outcome split: if_splits)
  then show "\<exists>ws. fig_data fig = counts_frame ''county'' ws \<and> nrows (fig_data fig) = length ws
            \<and> length ws = min 15 (card {v \<in> set counties. \<not> isna v})
            \<and> sorted_wrt (\<lambda>a b. snd b \<le> snd a) ws"
    using take_value_counts_props [of counties]
    by (intro exI [of _ "take 15 (value_counts counties)"]) (simp add: nrows_counts_frame)
next
  fix evs fig
  let ?ws = "top_models_of makes models"
  assume g: "getitem df ''make'' = Inr makes \<and> getitem df ''model'' = Inr models"
    and "plot_top_makes_models df = Done evs \<and> Plotly fig \<in> set evs"
  then obtain mm where "fig_data fig =
       [(''make'', map (\<lambda>w. fst (fst w)) ?ws), (''model'', map (\<lambda>w. snd (fst w)) ?ws),
        (''count'', map (\<lambda>w. count_cell (snd w)) ?ws), (''make_model'', mm)]"
    by (auto simp: makes_outcome split: if_splits sum.splits)
  then show "\<exists>ws mm. fig_data fig =
               [(''make'', map (\<lambda>w. fst (fst w)) ws), (''model'', map (\<lambda>w. snd (fst w)) ws),
                (''count'', map (\<lambda>w. count_cell (snd w)) ws), (''make_model'', mm)]
            \<and> nrows (fig_data fig) = length ws
            \<and> length ws = min 15 (card (set (complete_rows makes models)))
            \<and> sorted_wrt (\<lambda>a b. snd b \<le> snd a) ws"
    using top_models_props(1,2) [of makes models]
    by (intro exI [of _ ?ws] exI [of _ mm]) (simp add: nrows_def)
qed

lemma thirty_cities_card: "card {v \<in> set thirty_cities. \<not> isna v} = 30"
proof -
  have d: "distinct thirty_cities" by (simp add: thirty_cities_def)
  have "{v \<in> set thirty_cities. \<not> isna v} = set thirty_cities"
    by (auto simp: thirty_cities_def)
  moreover have "length thirty_cities = 30" by (simp add: thirty_cities_def)
  ultimately show ?thesis using distinct_card [OF d] by simp
qed

theorem top_n_at_most_15_witness:
  "\<exists>fig ws. plot_top_cities [(''city'', thirty_cities)]
        = Done [Text cities_heading, Text cities_caption, Plotly fig]
     \<and> fig_data fig = counts_frame ''city'' ws \<and> nrows (fig_data fig) = 15 \<and> length ws = 15
     \<and> sorted_wrt (\<lambda>a b. snd b \<le> snd a) ws"
proof -
  let ?df = "[(''city'', thirty_cities)]"
  let ?fig = "Figure ''bar'' (counts_frame ''city'' (take 15 (value_counts thirty_cities))) cities_title"
  have wf: "wf_frame ?df" by (simp add: wf_frame_def columns_def nrows_def)
  have g: "getitem ?df ''city'' = Inr thirty_cities" by (simp add: getitem_def)
  have "\<not> list_all isna thirty_cities" by (simp add: thirty_cities_def)
  with cities_outcome [OF g]
  have o: "plot_top_cities ?df = Done [Text cities_heading, Text cities_caption, Plotly ?fig]"
    by simp
  have "plot_top_cities ?df = Done [Text cities_heading, Text cities_caption, Plotly ?fig]
      \<and> Plotly ?fig \<in> set [Text cities_heading, Text cities_caption, Plotly ?fig]"
    using o by simp
  with top_n_at_most_15 [OF wf, where cities = thirty_cities] g
  obtain ws where "fig_data ?fig = counts_frame ''city'' ws" "nrows (fig_data ?fig) = length ws"
    "length ws = min 15 (card {v \<in> set thirty_cities. \<not> isna v})"
    "sorted_wrt (\<lambda>a b. snd b \<le> snd a) ws"
    by blast
  with o thirty_cities_card show ?thesis by (intro exI [of _ ?fig] exI [of _ ws]) simp
qed

text \<open>The unfolding that evaluates a counting builder on a concrete frame.\<close>

lemmas builder_eval = has_column_def columns_def getitem_def value_counts_def distinct_values_def
  sort_desc_def counts_frame_def head_def count_cell_def

text \<open>
  Claim C7 as stated fails where it asks for strictly descending counts: two cities with
  one vehicle each are charted with the counts 1 and 1.
\<close>

theorem tied_counts_counterexample:
  "plot_top_cities [(''city'', [CStr ''Kent'', CStr ''Seattle''])]
     = Done [Text cities_heading, Text cities_caption,
             Plotly (Figure ''bar''
                [(''city'', [CStr ''Kent'', CStr ''Seattle'']),
                 (''count'', [CNum (Fin 1), CNum (Fin 1)])] cities_title)]
   \<and> \<not> sorted_wrt (>) [1 :: nat, 1]"
  by (simp add: plot_top_cities_def builder_eval)

subsection \<open>Missing values are not counted\<close>

lemma counted_from_value_counts: "counted_from vs (value_counts vs)"
  by (auto simp: counted_from_def distinct_value_counts list_all_iff set_value_counts)

lemma counted_from_take: "counted_from vs ws \<Longrightarrow> counted_from vs (take n ws)"
  by (auto simp: counted_from_def list_all_iff take_map [symmetric] distinct_take dest: in_set_takeD)

lemma counted_from_sort_values:
  "counted_from vs ws \<Longrightarrow> sort_values ws = Inr ys \<Longrightarrow> counted_from vs ys"
  using sort_values_props(1,3) [of ws ys] by (auto simp: counted_from_def list_all_iff)

text \<open>
  Claim C10. In the figure of the type share, the top cities, the top counties and the
  yearly trend, no category is a missing value, the categories are distinct, and each
  count is the number of rows that hold its category; so a row whose cell is missing is in
  no category and in no count. The counts of the type share and of the yearly trend add
  up to the number of rows with a value; those of the 15 top cities or counties to at most
  that number.
\<close>

theorem missing_values_not_counted:
  assumes "wf_frame df"
  shows
   "(getitem df ''ev_type'' = Inr types \<longrightarrow>
      (\<forall>evs fig. plot_bev_phev_share df = Done evs \<and> Plotly fig \<in> set evs \<longrightarrow>
         (\<exists>ws. fig_data fig = counts_frame ''ev_type'' ws \<and> counted_from types ws
            \<and> sum_list (map snd ws) = length (filter (\<lambda>v. \<not> isna v) types))))
  \<and> (getitem df ''city'' = Inr cities \<longrightarrow>
      (\<forall>evs fig. plot_top_cities df = Done evs \<and> Plotly fig \<in> set evs \<longrightarrow>
         (\<exists>ws. fig_data fig = counts_frame ''city'' ws \<and> counted_from cities ws
            \<and> sum_list (map snd ws) \<le> length (filter (\<lambda>v. \<not> isna v) cities))))
  \<and> (getitem df ''county'' = Inr counties \<longrightarrow>
      (\<forall>evs fig. plot_top_counties df = Done evs \<and> Plotly fig \<in> set evs \<longrightarrow>
         (\<exists>ws. fig_data fig = counts_frame ''county'' ws \<and> counted_from counties ws
            \<and> sum_list (map snd ws) \<le> length (filter (\<lambda>v. \<not> isna v) counties))))
  \<and> (getitem df ''model_year'' = Inr years \<longrightarrow>
      (\<forall>evs fig. plot_yearly_trend df = Done evs \<and> Plotly fig \<in> set evs \<longrightarrow>
         (\<exists>ws. fig_data fig = counts_frame ''model_year'' ws \<and> counted_from years ws
            \<and> sum_list (map snd ws) = length (filter (\<lambda>v. \<not> isna v) years))))"
proof (intro conjI impI allI)
  fix evs fig
  assume "getitem df ''ev_type'' = Inr types"
    and "plot_bev_phev_share df = Done evs \<and> Plotly fig \<in> set evs"
  then have "fig_data fig = counts_frame ''ev_type'' (value_counts types)"
    by (auto simp: share_outcome split: if_splits)
  then show "\<exists>ws. fig_data fig = counts_frame ''ev_type'' ws \<and> counted_from types ws
            \<and> sum_list (map snd ws) = length (filter (\<lambda>v. \<not> isna v) types)"
    using counted_from_value_counts sum_value_counts by blast
next
  fix evs fig
  assume "getitem df ''city'' = Inr cities"
    and "plot_top_cities df = Done evs \<and> Plotly fig \<in> set evs"
  then have "fig_data fig = counts_frame ''city'' (take 15 (value_counts cities))"
    by (auto simp: cities_outcome split: if_splits)
  moreover have "sum_list (map snd (take 15 (value_counts cities)))
      \<le> length (filter (\<lambda>v. \<not> isna v) cities)"
    using sum_take_le [of snd 15 "value_counts cities"] by (simp add: sum_value_counts)
  ultimately show "\<exists>ws. fig_data fig = counts_frame ''city'' ws \<and> counted_from cities ws
            \<and> sum_list (map snd ws) \<le> length (filter (\<lambda>v. \<not> isna v) cities)"
    using counted_from_take [OF counted_from_value_counts] by blast
next
  fix evs fig
  assume "getitem df ''county'' = Inr counties"
    and "plot_top_counties df = Done evs \<and> Plotly fig \<in> set evs"
  then have "fig_data fig = counts_frame ''county'' (take 15 (value_counts counties))"
    by (auto simp: counties_outcome split: if_splits)
  moreover have "sum_list (map snd (take 15 (value_counts counties)))
      \<le> length (filter (\<lambda>v. \<not> isna v) counties)"
    using sum_take_le [of snd 15 "value_counts counties"] by (simp add: sum_value_counts)
  ultimately show "\<exists>ws. fig_data fig = counts_frame ''county'' ws \<and> counted_from counties ws
            \<and> sum_list (map snd ws) \<le> length (filter (\<lambda>v. \<not> isna v) counties)"
    using counted_from_take [OF counted_from_value_counts] by blast
next
  fix evs fig
  assume "getitem df ''model_year'' = Inr years"
    and "plot_yearly_trend df = Done evs \<and> Plotly fig \<in> set evs"
  then obtain ys where ys: "sort_values (value_counts years) = Inr ys"
    "fig_data fig = counts_frame ''model_year'' ys"
    by (auto simp: yearly_outcome split: if_splits sum.splits)
  from sort_values_props(2) [OF ys(1)]
  have "sum_list (map snd ys) = length (filter (\<lambda>v. \<not> isna v) years)"
    by (simp add: sum_value_counts)
  with ys(2) counted_from_sort_values [OF counted_from_value_counts ys(1)]
  show "\<exists>ws. fig_data fig = counts_frame ''model_year'' ws \<and> counted_from years ws
            \<and> sum_list (map snd ws) = length (filter (\<lambda>v. \<not> isna v) years)"
    by blast
qed

lemma gaps_frame_outcomes:
  "plot_bev_phev_share gaps_frame
     = Done [Text share_heading, Text share_caption,
             Plotly (Figure ''pie''
                (counts_frame ''ev_type'' [(CStr ''BEV'', 2), (CStr ''PHEV'', 1)]) share_title)]"
  "plot_top_cities gaps_frame
     = Done [Text cities_heading, Text cities_caption,
             Plotly (Figure ''bar''
                (counts_frame ''city'' [(CStr ''Kent'', 2), (CStr ''Seattle'', 1)]) cities_title)]"
  "plot_top_counties gaps_frame
     = Done [Text counties_heading, Text counties_caption,
             Plotly (Figure ''bar'' (counts_frame ''county'' [(CStr ''King'', 2)]) counties_title)]"
  "plot_yearly_trend gaps_frame
     = Done [Text yearly_heading, Text yearly_caption,
             Plotly (Figure ''line''
                (counts_frame ''model_year'' [(CNum (Fin 2019), 1), (CNum (Fin 2021), 2)])
                yearly_title)]"
  by (simp_all add: gaps_frame_def plot_bev_phev_share_def plot_top_cities_def
      plot_top_counties_def plot_yearly_trend_def builder_eval sort_values_def is_num_def
      is_fin_def fin_val_def)

theorem missing_values_not_counted_witness:
  "(\<exists>ws. plot_bev_phev_share gaps_frame
        = Done [Text share_heading, Text share_caption,
                Plotly (Figure ''pie'' (counts_frame ''ev_type'' ws) share_title)]
      \<and> counted_from [CStr ''BEV'', CNone, CStr ''PHEV'', CStr ''BEV''] ws
      \<and> sum_list (map snd ws) = 3)
   \<and> (\<exists>ws. plot_yearly_trend gaps_frame
        = Done [Text yearly_heading, Text yearly_caption,
                Plotly (Figure ''line'' (counts_frame ''model_year'' ws) yearly_title)]
      \<and> counted_from [CNum (Fin 2021), CNum NaN, CNum (Fin 2019), CNum (Fin 2021)] ws
      \<and> sum_list (map snd ws) = 3)"
proof -
  let ?types = "[CStr ''BEV'', CNone, CStr ''PHEV'', CStr ''BEV'']"
  let ?years = "[CNum (Fin 2021), CNum NaN, CNum (Fin 2019), CNum (Fin 2021)]"
  let ?f1 = "Figure ''pie'' (counts_frame ''ev_type'' [(CStr ''BEV'', 2), (CStr ''PHEV'', 1)]) share_title"
  let ?f2 = "Figure ''line'' (counts_frame ''model_year'' [(CNum (Fin 2019), 1), (CNum (Fin 2021), 2)]) yearly_title"
  have wf: "wf_frame gaps_frame"
    by (simp add: gaps_frame_def wf_frame_def columns_def nrows_def)
  have g: "getitem gaps_frame ''ev_type'' = Inr ?types" "getitem gaps_frame ''model_year'' = Inr ?years"
    by (simp_all add: gaps_frame_def getitem_def)
  note t = missing_values_not_counted [OF wf, where types = ?types and years = ?years]
  have 1: "plot_bev_phev_share gaps_frame = Done [Text share_heading, Text share_caption, Plotly ?f1]
      \<and> Plotly ?f1 \<in> set [Text share_heading, Text share_caption, Plotly ?f1]"
    by (simp add: gaps_frame_outcomes)
  have 2: "plot_yearly_trend gaps_frame = Done [Text yearly_heading, Text yearly_caption, Plotly ?f2]
      \<and> Plotly ?f2 \<in> set [Text yearly_heading, Text yearly_caption, Plotly ?f2]"
    by (simp add: gaps_frame_outcomes)
  from t g 1 obtain ws1 where w1: "fig_data ?f1 = counts_frame ''ev_type'' ws1"
    "counted_from ?types ws1" "sum_list (map snd ws1) = length (filter (\<lambda>v. \<not> isna v) ?types)"
    by blast
  from t g 2 obtain ws2 where w2: "fig_data ?f2 = counts_frame ''model_year'' ws2"
    "counted_from ?years ws2" "sum_list (map snd ws2) = length (filter (\<lambda>v. \<not> isna v) ?years)"
    by blast
  from w1(1) have "plot_bev_phev_share gaps_frame
        = Done [Text share_heading, Text share_caption,
                Plotly (Figure ''pie'' (counts_frame ''ev_type'' ws1) share_title)]"
    using 1 by simp
  moreover from w2(1) have "plot_yearly_trend gaps_frame
        = Done [Text yearly_heading, Text yearly_caption,
                Plotly (Figure ''line'' (counts_frame ''model_year'' ws2) yearly_title)]"
    using 2 by simp
  ultimately show ?thesis using w1(2,3) w2(2,3) by auto
qed

subsection \<open>The sample of the map\<close>




lemma unseeded_sample_varies:
  "sample first_rows ascending 1 None [(''city'', [CStr ''Kent'', CStr ''Seattle''])]
     = [(''city'', [CStr ''Kent''])]
   \<and> sample first_rows descending 1 None [(''city'', [CStr ''Kent'', CStr ''Seattle''])]
     = [(''city'', [CStr ''Seattle''])]"
  by (simp add: sample_def nrows_def ascending_def descending_def)








end
